theory Spec2Isabelle
  imports Main "HOL-Library.Word" "HOL-Library.AList"
begin

section \<open>Strings, buffers and the hexadecimal encoding\<close>

text \<open>
  A JavaScript string is modelled as a \<open>string\<close> of ASCII characters and a Node
  \<^verbatim>\<open>Buffer\<close> as a list of bytes.  \<^verbatim>\<open>String.prototype.toLowerCase\<close> maps the letters
  \<^verbatim>\<open>A\<close>..\<^verbatim>\<open>Z\<close> to \<^verbatim>\<open>a\<close>..\<^verbatim>\<open>z\<close> and leaves every other ASCII character alone.
\<close>

type_synonym byte = "8 word"
type_synonym buffer = "byte list"

definition upper_letters :: string where
  "upper_letters = ''ABCDEFGHIJKLMNOPQRSTUVWXYZ''"

definition lower_letters :: string where
  "lower_letters = ''abcdefghijklmnopqrstuvwxyz''"

definition lower_char :: "char \<Rightarrow> char" where
  "lower_char c =
     (case map_of (zip upper_letters lower_letters) c of Some d \<Rightarrow> d | None \<Rightarrow> c)"

definition toLowerCase :: "string \<Rightarrow> string" where
  "toLowerCase s = map lower_char s"

text \<open>
  \<^verbatim>\<open>str.split(".")\<close>: the pieces between the separators, in order; the result is never
  empty (\<^verbatim>\<open>"".split(".")\<close> is \<^verbatim>\<open>[""]\<close>).
\<close>

fun split_on :: "char \<Rightarrow> string \<Rightarrow> string list" where
  "split_on c [] = [[]]"
| "split_on c (x # xs) =
     (if x = c then [] # split_on c xs
      else (case split_on c xs of [] \<Rightarrow> [[x]] | p # ps \<Rightarrow> (x # p) # ps))"

text \<open>\<^verbatim>\<open>buf.toString("hex")\<close>: two lower-case digits per byte, high nibble first.\<close>

definition hex_digit :: "nat \<Rightarrow> char" where
  "hex_digit n = ''0123456789abcdef'' ! (n mod 16)"

definition hex_byte :: "byte \<Rightarrow> string" where
  "hex_byte b = [hex_digit (unat b div 16), hex_digit (unat b mod 16)]"

definition toString_hex :: "buffer \<Rightarrow> string" where
  "toString_hex bs = concat (map hex_byte bs)"

text \<open>
  \<^verbatim>\<open>Buffer.from(str, "hex")\<close>: decodes pairs of hexadecimal digits (either case) and stops
  at the first pair that is not one; a trailing single character is dropped.
\<close>

definition hex_val :: "char \<Rightarrow> nat option" where
  "hex_val c =
     (let n = (of_char c :: nat) in
      if 48 \<le> n \<and> n \<le> 57 then Some (n - 48)
      else if 97 \<le> n \<and> n \<le> 102 then Some (n - 87)
      else if 65 \<le> n \<and> n \<le> 70 then Some (n - 55)
      else None)"

fun Buffer_from_hex :: "string \<Rightarrow> buffer" where
  "Buffer_from_hex (a # b # rest) =
     (case (hex_val a, hex_val b) of
        (Some h, Some l) \<Rightarrow> word_of_nat (16 * h + l) # Buffer_from_hex rest
      | _ \<Rightarrow> [])"
| "Buffer_from_hex _ = []"

section \<open>External collaborators\<close>

text \<open>
  The cryptographic and protocol libraries are parameters of the model: Node's
  \<^verbatim>\<open>crypto.scrypt\<close> (password, salt, key length), \<^verbatim>\<open>speakeasy.totp.verify\<close> with
  \<^verbatim>\<open>encoding: "base32", window: 1\<close> (secret, token, current time), and the
  \<^verbatim>\<open>siwe\<close> package: \<open>siwe_address\<close> is the \<^verbatim>\<open>address\<close> field of
  \<^verbatim>\<open>new SiweMessage(message)\<close> (\<open>None\<close> when the constructor throws) and
  \<open>siwe_verify\<close> is \<^verbatim>\<open>(await siweMessage.verify({ signature })).success\<close>
  (\<open>None\<close> when \<^verbatim>\<open>verify\<close> rejects).
\<close>

record env =
  scrypt :: "string \<Rightarrow> string \<Rightarrow> nat \<Rightarrow> buffer"
  totp_verify :: "string \<Rightarrow> string \<Rightarrow> nat \<Rightarrow> bool"
  siwe_address :: "string \<Rightarrow> string option"
  siwe_verify :: "string \<Rightarrow> string \<Rightarrow> nat \<Rightarrow> bool option"

datatype error =
    ERR_INVALID_ARG_TYPE
  | ERR_CRYPTO_TIMING_SAFE_EQUAL_LENGTH
  | User_not_found nat
  | Failed_to_deserialize_user

section \<open>Password hashing (server/auth.ts)\<close>

text \<open>
  \<^verbatim>\<open>
  async function hashPassword(password: string) {
    const salt = randomBytes(16).toString("hex");
    const buf = (await scryptAsync(password, salt, 64)) as Buffer;
    return `${buf.toString("hex")}.${salt}`;
  }
  \<close>
  The bytes drawn from \<^verbatim>\<open>randomBytes(16)\<close> are an explicit argument.
\<close>

definition hashPassword :: "env \<Rightarrow> buffer \<Rightarrow> string \<Rightarrow> string" where
  "hashPassword E rnd password =
     (let salt = toString_hex rnd;
          buf = scrypt E password salt 64
      in toString_hex buf @ ''.'' @ salt)"

text \<open>
  \<^verbatim>\<open>crypto.timingSafeEqual\<close> throws a \<^verbatim>\<open>RangeError\<close> when the two buffers differ in
  length.
\<close>

definition timingSafeEqual :: "buffer \<Rightarrow> buffer \<Rightarrow> error + bool" where
  "timingSafeEqual a b =
     (if length a \<noteq> length b then Inl ERR_CRYPTO_TIMING_SAFE_EQUAL_LENGTH
      else Inr (a = b))"

text \<open>
  \<^verbatim>\<open>
  async function comparePasswords(supplied: string, stored: string) {
    const [hashed, salt] = stored.split(".");
    const hashedBuf = Buffer.from(hashed, "hex");
    const suppliedBuf = (await scryptAsync(supplied, salt, 64)) as Buffer;
    return timingSafeEqual(hashedBuf, suppliedBuf);
  }
  \<close>
  When \<^verbatim>\<open>stored\<close> holds no \<^verbatim>\<open>"."\<close> the destructured \<^verbatim>\<open>salt\<close> is \<^verbatim>\<open>undefined\<close> and
  \<^verbatim>\<open>scrypt\<close> throws a \<^verbatim>\<open>TypeError\<close>.
\<close>

definition comparePasswords :: "env \<Rightarrow> string \<Rightarrow> string \<Rightarrow> error + bool" where
  "comparePasswords E supplied stored =
     (case split_on CHR ''.'' stored of
        hashed # salt # _ \<Rightarrow>
          timingSafeEqual (Buffer_from_hex hashed) (scrypt E supplied salt 64)
      | _ \<Rightarrow> Inl ERR_INVALID_ARG_TYPE)"

section \<open>Data model (shared/schema.ts)\<close>

text \<open>
  A row of the \<^verbatim>\<open>users\<close> table.  The two fields that the routes strip from their
  answers (\<^verbatim>\<open>password\<close>, \<^verbatim>\<open>twoFactorSecret\<close>) extend the record of the others, so
  that \<^verbatim>\<open>const { password, twoFactorSecret, ...userWithoutSensitiveInfo } = user\<close> is
  the truncation to \<open>user_public\<close>.  The field \<^verbatim>\<open>id\<close> is named \<open>user_id\<close>; nullable
  columns are options; \<^verbatim>\<open>lastLogin\<close> is a time stamp in milliseconds.
\<close>

record user_public =
  user_id :: nat
  username :: string
  email :: string
  firstName :: "string option"
  lastName :: "string option"
  role :: string
  is2FAEnabled :: bool
  isPremium :: bool
  stripeCustomerId :: "string option"
  stripeSubscriptionId :: "string option"
  lastLogin :: "nat option"
  language :: string
  walletAddress :: "string option"
  authType :: string

record User = user_public +
  password :: string
  twoFactorSecret :: "string option"

text \<open>
  \<^verbatim>\<open>InsertUser\<close> (\<^verbatim>\<open>insertUserSchema\<close>): three required strings and four optional,
  nullable ones (\<open>None\<close> for an absent key and for \<^verbatim>\<open>null\<close>, which \<^verbatim>\<open>createUser\<close>
  treats alike).  The schema only constrains the types, so every value of this record
  passes \<^verbatim>\<open>insertUserSchema.safeParse\<close>.
\<close>

record InsertUser =
  ins_username :: string
  ins_password :: string
  ins_email :: string
  ins_firstName :: "string option"
  ins_lastName :: "string option"
  ins_walletAddress :: "string option"
  ins_authType :: "string option"

text \<open>
  \<^verbatim>\<open>Partial<User>\<close>: \<open>None\<close> is a key that the object does not carry, \<open>Some v\<close> a key
  carrying \<open>v\<close> (for a nullable column \<open>Some None\<close> is the key carrying \<^verbatim>\<open>null\<close>).
\<close>

record Partial_User =
  p_id :: "nat option"
  p_username :: "string option"
  p_email :: "string option"
  p_firstName :: "string option option"
  p_lastName :: "string option option"
  p_role :: "string option"
  p_is2FAEnabled :: "bool option"
  p_isPremium :: "bool option"
  p_stripeCustomerId :: "string option option"
  p_stripeSubscriptionId :: "string option option"
  p_lastLogin :: "nat option option"
  p_language :: "string option"
  p_walletAddress :: "string option option"
  p_authType :: "string option"
  p_password :: "string option"
  p_twoFactorSecret :: "string option option"

definition no_updates :: Partial_User where
  "no_updates =
     \<lparr>p_id = None, p_username = None, p_email = None, p_firstName = None,
      p_lastName = None, p_role = None, p_is2FAEnabled = None, p_isPremium = None,
      p_stripeCustomerId = None, p_stripeSubscriptionId = None, p_lastLogin = None,
      p_language = None, p_walletAddress = None, p_authType = None, p_password = None,
      p_twoFactorSecret = None\<rparr>"

text \<open>The object spread \<^verbatim>\<open>{ ...user, ...updates }\<close>: every key of \<^verbatim>\<open>updates\<close> wins.\<close>

definition overwrite :: "'a option \<Rightarrow> 'a \<Rightarrow> 'a" where
  "overwrite new old = (case new of None \<Rightarrow> old | Some v \<Rightarrow> v)"

definition spread :: "User \<Rightarrow> Partial_User \<Rightarrow> User" where
  "spread u p =
     \<lparr>user_id = overwrite (p_id p) (user_id u),
      username = overwrite (p_username p) (username u),
      email = overwrite (p_email p) (email u),
      firstName = overwrite (p_firstName p) (firstName u),
      lastName = overwrite (p_lastName p) (lastName u),
      role = overwrite (p_role p) (role u),
      is2FAEnabled = overwrite (p_is2FAEnabled p) (is2FAEnabled u),
      isPremium = overwrite (p_isPremium p) (isPremium u),
      stripeCustomerId = overwrite (p_stripeCustomerId p) (stripeCustomerId u),
      stripeSubscriptionId = overwrite (p_stripeSubscriptionId p) (stripeSubscriptionId u),
      lastLogin = overwrite (p_lastLogin p) (lastLogin u),
      language = overwrite (p_language p) (language u),
      walletAddress = overwrite (p_walletAddress p) (walletAddress u),
      authType = overwrite (p_authType p) (authType u),
      password = overwrite (p_password p) (password u),
      twoFactorSecret = overwrite (p_twoFactorSecret p) (twoFactorSecret u)\<rparr>"

section \<open>The in-memory store (server/storage.ts, class MemStorage)\<close>

text \<open>
  \<^verbatim>\<open>userStorage: Map<number, User>\<close> is an association list in insertion order:
  \<^verbatim>\<open>Map.prototype.set\<close> replaces the value of a present key in place and appends an
  absent key, which is \<open>AList.update\<close>; \<^verbatim>\<open>get\<close> is \<open>map_of\<close>; \<^verbatim>\<open>values()\<close> iterates in
  list order.  The payment table plays no part in the routes below and is left out.
\<close>

record MemStorage =
  userStorage :: "(nat \<times> User) list"
  currentUserId :: nat

definition new_MemStorage :: MemStorage where
  "new_MemStorage = \<lparr>userStorage = [], currentUserId = 1\<rparr>"

definition getUser :: "MemStorage \<Rightarrow> nat \<Rightarrow> User option" where
  "getUser st k = map_of (userStorage st) k"

text \<open>
  \<^verbatim>\<open>Array.from(this.userStorage.values()).find(pred)\<close>.  The entry is returned with its
  key, because the routes go on to mutate the object they found.
\<close>

definition find_entry :: "(User \<Rightarrow> bool) \<Rightarrow> MemStorage \<Rightarrow> (nat \<times> User) option" where
  "find_entry pred st = find (\<lambda>kv. pred (snd kv)) (userStorage st)"

definition username_matches :: "string \<Rightarrow> User \<Rightarrow> bool" where
  "username_matches name u = (toLowerCase (username u) = toLowerCase name)"

definition email_matches :: "string \<Rightarrow> User \<Rightarrow> bool" where
  "email_matches mail u = (toLowerCase (email u) = toLowerCase mail)"

text \<open>
  \<^verbatim>\<open>user.walletAddress?.toLowerCase() === walletAddress.toLowerCase()\<close>: for a
  \<^verbatim>\<open>null\<close> address the left side is \<^verbatim>\<open>undefined\<close> and the comparison is false.
\<close>

definition wallet_matches :: "string \<Rightarrow> User \<Rightarrow> bool" where
  "wallet_matches addr u =
     (case walletAddress u of
        None \<Rightarrow> False
      | Some w \<Rightarrow> toLowerCase w = toLowerCase addr)"

definition getUserByUsername :: "MemStorage \<Rightarrow> string \<Rightarrow> User option" where
  "getUserByUsername st name = map_option snd (find_entry (username_matches name) st)"

definition getUserByEmail :: "MemStorage \<Rightarrow> string \<Rightarrow> User option" where
  "getUserByEmail st mail = map_option snd (find_entry (email_matches mail) st)"

definition getUserByWalletAddress :: "MemStorage \<Rightarrow> string \<Rightarrow> User option" where
  "getUserByWalletAddress st addr = map_option snd (find_entry (wallet_matches addr) st)"

text \<open>\<^verbatim>\<open>x || null\<close> and \<^verbatim>\<open>x || "email"\<close>: the empty string is falsy too.\<close>

definition or_null :: "string option \<Rightarrow> string option" where
  "or_null x = (case x of None \<Rightarrow> None | Some s \<Rightarrow> if s = [] then None else Some s)"

definition or_default :: "string option \<Rightarrow> string \<Rightarrow> string" where
  "or_default x d = (case or_null x of None \<Rightarrow> d | Some s \<Rightarrow> s)"

definition createUser :: "nat \<Rightarrow> MemStorage \<Rightarrow> InsertUser \<Rightarrow> MemStorage \<times> User" where
  "createUser now st userData =
     (let ident = currentUserId st;
          user = \<lparr>user_id = ident,
                  username = ins_username userData,
                  email = ins_email userData,
                  firstName = or_null (ins_firstName userData),
                  lastName = or_null (ins_lastName userData),
                  role = ''user'',
                  is2FAEnabled = False,
                  isPremium = False,
                  stripeCustomerId = None,
                  stripeSubscriptionId = None,
                  lastLogin = Some now,
                  language = ''en'',
                  walletAddress = or_null (ins_walletAddress userData),
                  authType = or_default (ins_authType userData) ''email'',
                  password = ins_password userData,
                  twoFactorSecret = None\<rparr>
      in (st\<lparr>userStorage := AList.update ident user (userStorage st),
             currentUserId := ident + 1\<rparr>, user))"

definition updateUser :: "MemStorage \<Rightarrow> nat \<Rightarrow> Partial_User \<Rightarrow> error + MemStorage \<times> User" where
  "updateUser st k updates =
     (case getUser st k of
        None \<Rightarrow> Inl (User_not_found k)
      | Some user \<Rightarrow>
          (let updatedUser = spread user updates
           in Inr (st\<lparr>userStorage := AList.update k updatedUser (userStorage st)\<rparr>,
                   updatedUser)))"

definition updateLastLogin :: "nat \<Rightarrow> MemStorage \<Rightarrow> nat \<Rightarrow> MemStorage" where
  "updateLastLogin now st k =
     (case getUser st k of
        None \<Rightarrow> st
      | Some user \<Rightarrow>
          st\<lparr>userStorage := AList.update k (user\<lparr>lastLogin := Some now\<rparr>) (userStorage st)\<rparr>)"

text \<open>
  \<^verbatim>\<open>updateLastLogin(user.id)\<close> assigns \<^verbatim>\<open>lastLogin\<close> on the object stored under
  \<^verbatim>\<open>user.id\<close>.  The object \<open>user\<close> that a route holds, found under key \<open>k\<close>, is that
  very object exactly when \<open>user_id user = k\<close>; then the route sees the new time stamp.
\<close>

definition seen_after_updateLastLogin :: "nat \<Rightarrow> nat \<Rightarrow> User \<Rightarrow> User" where
  "seen_after_updateLastLogin now k user =
     (if user_id user = k then user\<lparr>lastLogin := Some now\<rparr> else user)"

section \<open>The database store (class DatabaseStorage)\<close>

text \<open>
  The table is the list of its rows.  \<^verbatim>\<open>db.select().from(users).where(eq(users.username,
  username)).limit(1)\<close> followed by \<^verbatim>\<open>results[0]\<close> is the first row whose column equals
  the argument; \<^verbatim>\<open>eq\<close> is SQL equality on \<^verbatim>\<open>text\<close>, which compares the strings as they
  are.
\<close>

type_synonym DatabaseStorage = "User list"

definition db_getUserByUsername :: "DatabaseStorage \<Rightarrow> string \<Rightarrow> User option" where
  "db_getUserByUsername rows name = find (\<lambda>u. username u = name) rows"

definition db_getUserByEmail :: "DatabaseStorage \<Rightarrow> string \<Rightarrow> User option" where
  "db_getUserByEmail rows mail = find (\<lambda>u. email u = mail) rows"

definition db_getUserByWalletAddress :: "DatabaseStorage \<Rightarrow> string \<Rightarrow> User option" where
  "db_getUserByWalletAddress rows addr = find (\<lambda>u. walletAddress u = Some addr) rows"

section \<open>Sessions and answers (server/auth.ts)\<close>

text \<open>
  The session of a request is \<^verbatim>\<open>req.session.passport.user\<close>: the id that
  \<^verbatim>\<open>serializeUser\<close> stored, if any.  \<^verbatim>\<open>req.login(user, cb)\<close> stores \<^verbatim>\<open>user.id\<close>;
  failures of the session store itself are outside the model.

  The middleware \<^verbatim>\<open>passport.session()\<close> runs before every route.  For a session
  that holds an id it calls
  \<^verbatim>\<open>
  passport.deserializeUser(async (id: number, done) => {
    try {
      const user = await storage.getUser(id);
      done(null, user);
    } catch (err) { done(err); }
  });
  \<close>
  When the store has no user under the id, \<^verbatim>\<open>user\<close> is \<^verbatim>\<open>undefined\<close> (neither
  \<^verbatim>\<open>null\<close> nor \<^verbatim>\<open>false\<close>), and passport ends the request with the error
  \<^verbatim>\<open>Failed to deserialize user out of session\<close>: the route does not run, and neither
  the store nor the session is touched.  Otherwise \<^verbatim>\<open>req.user\<close> is the user found and
  the route runs.
\<close>

type_synonym session = "nat option"

definition deserializeUser :: "MemStorage \<Rightarrow> session \<Rightarrow> error + User option" where
  "deserializeUser st sess =
     (case sess of
        None \<Rightarrow> Inr None
      | Some k \<Rightarrow>
          (case getUser st k of
             None \<Rightarrow> Inl Failed_to_deserialize_user
           | Some user \<Rightarrow> Inr (Some user)))"

definition session_ok :: "MemStorage \<Rightarrow> session \<Rightarrow> bool" where
  "session_ok st sess = (case deserializeUser st sess of Inl _ \<Rightarrow> False | Inr _ \<Rightarrow> True)"

definition req_user :: "MemStorage \<Rightarrow> session \<Rightarrow> User option" where
  "req_user st sess = (case sess of None \<Rightarrow> None | Some k \<Rightarrow> getUser st k)"

definition isAuthenticated :: "MemStorage \<Rightarrow> session \<Rightarrow> bool" where
  "isAuthenticated st sess = (req_user st sess \<noteq> None)"

text \<open>
  The JSON bodies the routes send.  \<open>ValidationErrors\<close> carries the message and the
  messages of the failed schema checks, \<open>Requires2FA\<close> is
  \<^verbatim>\<open>{ requires2FA: true, userId, message }\<close>, \<open>UserWithoutPassword\<close> is the user without
  \<^verbatim>\<open>password\<close> (the secret stays in).  \<open>Next e\<close> is \<^verbatim>\<open>next(err)\<close>: the error goes to
  the framework's error handler.
\<close>

datatype body =
    Message string
  | ValidationErrors string "string list"
  | Requires2FA "nat option" string
  | UserWithoutSensitiveInfo user_public
  | UserWithoutPassword user_public "string option"
  | UserList "user_public list"

datatype outcome = Response nat body | Next error

type_synonym result = "MemStorage \<times> session \<times> outcome"

text \<open>
  A route behind the middleware: \<open>route\<close> is what the route answers once
  \<^verbatim>\<open>deserializeUser\<close> has succeeded.
\<close>

definition passport_session :: "MemStorage \<Rightarrow> session \<Rightarrow> result \<Rightarrow> result" where
  "passport_session st sess route =
     (case deserializeUser st sess of
        Inl err \<Rightarrow> (st, sess, Next err)
      | Inr _ \<Rightarrow> route)"

section \<open>Credential login\<close>

text \<open>
  \<^verbatim>\<open>
  new LocalStrategy(async (username, password, done) => {
    try {
      const user = await storage.getUserByUsername(username);
      if (!user) return done(null, false, { message: "Incorrect username or password" });
      const passwordValid = await comparePasswords(password, user.password);
      if (!passwordValid) return done(null, false, { message: "Incorrect username or password" });
      if (user.is2FAEnabled) {
        const options = { message: "2FA verification required" };
        options.requires2FA = true;  options.userId = user.id;
        return done(null, false, options);
      }
      await storage.updateLastLogin(user.id);
      return done(null, user);
    } catch (err) { return done(err); }
  })
  \<close>
\<close>

record Extended2FAVerifyOptions =
  message :: string
  requires2FA :: bool
  userId :: "nat option"

datatype done_call = Done_error error | Done_fail Extended2FAVerifyOptions | Done_user User

definition LocalStrategy_verify ::
  "env \<Rightarrow> nat \<Rightarrow> MemStorage \<Rightarrow> string \<Rightarrow> string \<Rightarrow> MemStorage \<times> done_call" where
  "LocalStrategy_verify E now st uname pw =
     (case find_entry (username_matches uname) st of
        None \<Rightarrow>
          (st, Done_fail \<lparr>message = ''Incorrect username or password'',
                           requires2FA = False, userId = None\<rparr>)
      | Some (k, user) \<Rightarrow>
          (case comparePasswords E pw (password user) of
             Inl err \<Rightarrow> (st, Done_error err)
           | Inr passwordValid \<Rightarrow>
               if \<not> passwordValid then
                 (st, Done_fail \<lparr>message = ''Incorrect username or password'',
                                  requires2FA = False, userId = None\<rparr>)
               else if is2FAEnabled user then
                 (st, Done_fail \<lparr>message = ''2FA verification required'',
                                  requires2FA = True, userId = Some (user_id user)\<rparr>)
               else
                 (updateLastLogin now st (user_id user),
                  Done_user (seen_after_updateLastLogin now k user))))"

text \<open>\<^verbatim>\<open>loginUserSchema\<close>: both strings have at least one character.\<close>

definition loginUserSchema_errors :: "string \<Rightarrow> string \<Rightarrow> string list" where
  "loginUserSchema_errors uname pw =
     (if uname = [] then [''Username is required''] else [])
     @ (if pw = [] then [''Password is required''] else [])"

text \<open>
  \<^verbatim>\<open>
  app.post("/api/login", (req, res, next) => {
    const result = loginUserSchema.safeParse(req.body);
    if (!result.success)
      return res.status(400).json({ message: "Invalid input data", errors: ... });
    passport.authenticate("local", (err, user, info) => {
      if (err) return next(err);
      if (!user) {
        if (info && info.requires2FA)
          return res.status(200).json({ requires2FA: true, userId: info.userId,
                                        message: "2FA verification required" });
        return res.status(401).json({ message: info?.message || "Authentication failed" });
      }
      req.login(user, (err) => { ... return res.status(200).json(userWithoutSensitiveInfo); });
    })(req, res, next);
  });
  \<close>
\<close>

definition login_route ::
  "env \<Rightarrow> nat \<Rightarrow> MemStorage \<Rightarrow> session \<Rightarrow> string \<Rightarrow> string \<Rightarrow> result" where
  "login_route E now st sess uname pw =
     passport_session st sess
     (let errs = loginUserSchema_errors uname pw in
      if errs \<noteq> [] then
        (st, sess, Response 400 (ValidationErrors ''Invalid input data'' errs))
      else
        (case LocalStrategy_verify E now st uname pw of
           (st', Done_error err) \<Rightarrow> (st', sess, Next err)
         | (st', Done_fail info) \<Rightarrow>
             if requires2FA info then
               (st', sess,
                Response 200 (Requires2FA (userId info) ''2FA verification required''))
             else
               (st', sess,
                Response 401 (Message (if message info = [] then ''Authentication failed''
                                       else message info)))
         | (st', Done_user user) \<Rightarrow>
             (st', Some (user_id user),
              Response 200 (UserWithoutSensitiveInfo (user_public.truncate user)))))"

section \<open>Registration\<close>

text \<open>
  \<^verbatim>\<open>
  app.post("/api/register", async (req, res, next) => {
    ...
    const { username, email } = result.data;
    const existingUsername = await storage.getUserByUsername(username);
    if (existingUsername) return res.status(400).json({ message: "Username already exists" });
    const existingEmail = await storage.getUserByEmail(email);
    if (existingEmail) return res.status(400).json({ message: "Email already in use" });
    const hashedPassword = await hashPassword(result.data.password);
    const user = await storage.createUser({ ...result.data, password: hashedPassword });
    req.login(user, (err) => { ... res.status(201).json(userWithoutPassword); });
  });
  \<close>
\<close>

definition register_route ::
  "env \<Rightarrow> buffer \<Rightarrow> nat \<Rightarrow> MemStorage \<Rightarrow> session \<Rightarrow> InsertUser \<Rightarrow> result" where
  "register_route E rnd now st sess userData =
     passport_session st sess
     (case getUserByUsername st (ins_username userData) of
        Some _ \<Rightarrow> (st, sess, Response 400 (Message ''Username already exists''))
      | None \<Rightarrow>
          (case getUserByEmail st (ins_email userData) of
             Some _ \<Rightarrow> (st, sess, Response 400 (Message ''Email already in use''))
           | None \<Rightarrow>
               (let hashedPassword = hashPassword E rnd (ins_password userData);
                    (st', user) = createUser now st (userData\<lparr>ins_password := hashedPassword\<rparr>)
                in (st', Some (user_id user),
                    Response 201 (UserWithoutPassword (user_public.truncate user)
                                                       (twoFactorSecret user))))))"

section \<open>Wallet login\<close>

definition web3LoginSchema_errors :: "string \<Rightarrow> string \<Rightarrow> string \<Rightarrow> string list" where
  "web3LoginSchema_errors address signature msg =
     (if address = [] then [''Wallet address is required''] else [])
     @ (if signature = [] then [''Signature is required''] else [])
     @ (if msg = [] then [''Message is required''] else [])"

text \<open>
  \<^verbatim>\<open>POST /api/web3-login\<close>.  Everything after the schema check runs inside a
  \<^verbatim>\<open>try\<close> whose \<^verbatim>\<open>catch\<close> answers 401 "Invalid signature"; the constructor of
  \<^verbatim>\<open>SiweMessage\<close> and \<^verbatim>\<open>verify\<close> are the calls that can throw there.  The account
  of a new address is created by
  \<^verbatim>\<open>
  storage.createUser({
    username: `wallet_${address.slice(0, 8)}`,
    email: `${address.slice(0, 10)}@wallet.eth`,
    password: await hashPassword(randomBytes(16).toString("hex")),
    walletAddress: address,
    authType: "web3" })
  \<close>
  with \<open>rnd_pw\<close> the bytes of the random password and \<open>rnd_salt\<close> those of its salt.
\<close>

definition wallet_userData :: "env \<Rightarrow> buffer \<Rightarrow> buffer \<Rightarrow> string \<Rightarrow> InsertUser" where
  "wallet_userData E rnd_pw rnd_salt address =
     \<lparr>ins_username = ''wallet_'' @ take 8 address,
      ins_password = hashPassword E rnd_salt (toString_hex rnd_pw),
      ins_email = take 10 address @ ''@wallet.eth'',
      ins_firstName = None,
      ins_lastName = None,
      ins_walletAddress = Some address,
      ins_authType = Some ''web3''\<rparr>"

definition web3_login_route ::
  "env \<Rightarrow> buffer \<Rightarrow> buffer \<Rightarrow> nat \<Rightarrow> MemStorage \<Rightarrow> session
     \<Rightarrow> string \<Rightarrow> string \<Rightarrow> string \<Rightarrow> result" where
  "web3_login_route E rnd_pw rnd_salt now st sess address signature msg =
     passport_session st sess
     (let errs = web3LoginSchema_errors address signature msg in
      if errs \<noteq> [] then
        (st, sess, Response 400 (ValidationErrors ''Invalid input data'' errs))
      else
        (case siwe_address E msg of
           None \<Rightarrow> (st, sess, Response 401 (Message ''Invalid signature''))
         | Some parsed_address \<Rightarrow>
             (case siwe_verify E msg signature now of
                None \<Rightarrow> (st, sess, Response 401 (Message ''Invalid signature''))
              | Some success \<Rightarrow>
                  if \<not> success then
                    (st, sess, Response 401 (Message ''Invalid signature''))
                  else if toLowerCase parsed_address \<noteq> toLowerCase address then
                    (st, sess, Response 401 (Message ''Address mismatch''))
                  else
                    (let (st1, k, user) =
                           (case find_entry (wallet_matches address) st of
                              Some (k, user) \<Rightarrow> (st, k, user)
                            | None \<Rightarrow>
                                (let (st1, user) =
                                       createUser now st
                                         (wallet_userData E rnd_pw rnd_salt address)
                                 in (st1, user_id user, user)));
                         st2 = updateLastLogin now st1 (user_id user);
                         user' = seen_after_updateLastLogin now k user
                     in (st2, Some (user_id user'),
                         Response 200
                           (UserWithoutSensitiveInfo (user_public.truncate user')))))))"

section \<open>Second factor\<close>

text \<open>
  \<^verbatim>\<open>
  app.post("/api/verify-2fa", async (req, res, next) => {
    const result = verify2FASchema.safeParse(req.body);       // token has length 6
    if (!result.success) return res.status(400).json({ message: "Invalid verification code", ... });
    const { token, userId } = req.body;
    if (!userId) return res.status(400).json({ message: "User ID is required" });
    const user = await storage.getUser(userId);
    if (!user || !user.twoFactorSecret)
      return res.status(400).json({ message: "Invalid user or 2FA not setup" });
    const verified = speakeasy.totp.verify({ secret: user.twoFactorSecret,
                                             encoding: "base32", token, window: 1 });
    if (!verified) return res.status(401).json({ message: "Invalid verification code" });
    await storage.updateLastLogin(user.id);
    req.login(user, (err) => { ... return res.status(200).json(userWithoutSensitiveInfo); });
  });
  \<close>
  \<open>body_userId\<close> is \<open>None\<close> when the body carries no number there; \<^verbatim>\<open>!userId\<close> also holds
  for 0, and \<^verbatim>\<open>!user.twoFactorSecret\<close> for \<^verbatim>\<open>null\<close> and for the empty string.
\<close>

definition verify2FASchema_errors :: "string \<Rightarrow> string list" where
  "verify2FASchema_errors token =
     (if length token \<noteq> 6 then [''Verification code must be 6 digits''] else [])"

definition verify_2fa_route ::
  "env \<Rightarrow> nat \<Rightarrow> MemStorage \<Rightarrow> session \<Rightarrow> string \<Rightarrow> nat option \<Rightarrow> result" where
  "verify_2fa_route E now st sess token body_userId =
     passport_session st sess
     (let errs = verify2FASchema_errors token in
      if errs \<noteq> [] then
        (st, sess, Response 400 (ValidationErrors ''Invalid verification code'' errs))
      else
        (case body_userId of
           None \<Rightarrow> (st, sess, Response 400 (Message ''User ID is required''))
         | Some k \<Rightarrow>
             if k = 0 then (st, sess, Response 400 (Message ''User ID is required''))
             else
               (case getUser st k of
                  None \<Rightarrow> (st, sess, Response 400 (Message ''Invalid user or 2FA not setup''))
                | Some user \<Rightarrow>
                    (case or_null (twoFactorSecret user) of
                       None \<Rightarrow>
                         (st, sess, Response 400 (Message ''Invalid user or 2FA not setup''))
                     | Some secret \<Rightarrow>
                         if \<not> totp_verify E secret token now then
                           (st, sess, Response 401 (Message ''Invalid verification code''))
                         else
                           (let st' = updateLastLogin now st (user_id user);
                                user' = seen_after_updateLastLogin now k user
                            in (st', Some (user_id user'),
                                Response 200
                                  (UserWithoutSensitiveInfo
                                     (user_public.truncate user'))))))))"

text \<open>
  \<^verbatim>\<open>
  app.post("/api/user/disable-2fa", async (req, res, next) => {
    if (!req.isAuthenticated()) return res.status(401).json({ message: "Not authenticated" });
    try {
      await storage.updateUser(req.user.id, { is2FAEnabled: false, twoFactorSecret: null });
      res.json({ message: "2FA disabled successfully" });
    } catch (err) { next(err); }
  });
  \<close>
\<close>

definition disable_2fa_updates :: Partial_User where
  "disable_2fa_updates = no_updates\<lparr>p_is2FAEnabled := Some False, p_twoFactorSecret := Some None\<rparr>"

definition disable_2fa_route :: "MemStorage \<Rightarrow> session \<Rightarrow> result" where
  "disable_2fa_route st sess =
     passport_session st sess
     (case req_user st sess of
        None \<Rightarrow> (st, sess, Response 401 (Message ''Not authenticated''))
      | Some user \<Rightarrow>
          (case updateUser st (user_id user) disable_2fa_updates of
             Inl err \<Rightarrow> (st, sess, Next err)
           | Inr (st', _) \<Rightarrow> (st', sess, Response 200 (Message ''2FA disabled successfully''))))"

section \<open>Profile update and the admin guard\<close>

text \<open>
  \<^verbatim>\<open>
  app.patch("/api/user", async (req, res, next) => {
    if (!req.isAuthenticated()) return res.status(401).json({ message: "Not authenticated" });
    try {
      const updatedUser = await storage.updateUser(req.user.id, req.body);
      const { password, twoFactorSecret, ...userWithoutSensitiveInfo } = updatedUser;
      res.json(userWithoutSensitiveInfo);
    } catch (err) { next(err); }
  });
  \<close>
  The request body is taken as a \<^verbatim>\<open>Partial<User>\<close>.
\<close>

definition patch_user_route :: "MemStorage \<Rightarrow> session \<Rightarrow> Partial_User \<Rightarrow> result" where
  "patch_user_route st sess req_body =
     passport_session st sess
     (case req_user st sess of
        None \<Rightarrow> (st, sess, Response 401 (Message ''Not authenticated''))
      | Some user \<Rightarrow>
          (case updateUser st (user_id user) req_body of
             Inl err \<Rightarrow> (st, sess, Next err)
           | Inr (st', updatedUser) \<Rightarrow>
               (st', sess,
                Response 200 (UserWithoutSensitiveInfo (user_public.truncate updatedUser)))))"


section \<open>Stored records and the stand-in collaborators of the examples\<close>



text \<open>
  The concrete instances below run the routes with simple deterministic stand-ins for the
  libraries: a key derivation that repeats one byte computed from password and salt, a
  one-time code that is the first six characters of the secret, and a signed message
  whose address is its first word and whose signature is the message behind a prefix.
\<close>

definition example_scrypt :: "string \<Rightarrow> string \<Rightarrow> nat \<Rightarrow> buffer" where
  "example_scrypt pw salt keylen =
     replicate keylen (word_of_nat (sum_list (map of_char (pw @ salt))))"

definition example_env :: env where
  "example_env =
     \<lparr>scrypt = example_scrypt,
      totp_verify = (\<lambda>secret token now. token = take 6 secret),
      siwe_address =
        (\<lambda>msg. if msg = [] then None else Some (takeWhile (\<lambda>c. c \<noteq> CHR '' '') msg)),
      siwe_verify = (\<lambda>msg signature now. Some (signature = ''signed:'' @ msg))\<rparr>"

text \<open>
  A store with two accounts: the first has the second factor switched on, the second
  has set a secret up without enabling it.
\<close>

definition example_salt :: buffer where
  "example_salt = [0x3a, 0x7f, 0x00, 0xc4, 0x15, 0x9e, 0x22, 0xb7, 0x68, 0xd1, 0x0f, 0x83, 0x4c, 0xe5, 0x96, 0x2b]"

definition alice :: User where
  "alice =
     \<lparr>user_id = 1, username = ''alice'', email = ''alice@x.com'', firstName = None,
      lastName = None, role = ''user'', is2FAEnabled = True, isPremium = False,
      stripeCustomerId = None, stripeSubscriptionId = None, lastLogin = Some 1000,
      language = ''en'', walletAddress = None, authType = ''email'',
      password = hashPassword example_env example_salt ''secret1'',
      twoFactorSecret = Some ''JBSWY3DPEHPK3PXP''\<rparr>"

definition bob :: User where
  "bob =
     \<lparr>user_id = 2, username = ''Bob'', email = ''bob@x.com'', firstName = Some ''Bob'',
      lastName = None, role = ''user'', is2FAEnabled = False, isPremium = False,
      stripeCustomerId = None, stripeSubscriptionId = None, lastLogin = Some 2000,
      language = ''en'', walletAddress = None, authType = ''email'',
      password = hashPassword example_env example_salt ''hunter2'',
      twoFactorSecret = Some ''KRSXG5CTMVRXEZLU''\<rparr>"

definition example_store :: MemStorage where
  "example_store = \<lparr>userStorage = [(1, alice), (2, bob)], currentUserId = 3\<rparr>"

text \<open>
  What the class keeps true of its map: ids are handed out from \<^verbatim>\<open>currentUserId\<close>,
  which starts at 1 and only grows, so every key is positive and below it, and no key
  occurs twice.
\<close>

definition store_ok :: "MemStorage \<Rightarrow> bool" where
  "store_ok st =
     (0 < currentUserId st
      \<and> distinct (map fst (userStorage st))
      \<and> list_all (\<lambda>k. 0 < k \<and> k < currentUserId st) (map fst (userStorage st)))"

text \<open>
  The record \<^verbatim>\<open>createUser\<close> builds for the account of a new wallet address, with
  \<open>ident\<close> the id it is given.
\<close>

definition wallet_user :: "env \<Rightarrow> buffer \<Rightarrow> buffer \<Rightarrow> nat \<Rightarrow> nat \<Rightarrow> string \<Rightarrow> User" where
  "wallet_user E rnd_pw rnd_salt now ident address =
     \<lparr>user_id = ident,
      username = ''wallet_'' @ take 8 address,
      email = take 10 address @ ''@wallet.eth'',
      firstName = None, lastName = None, role = ''user'', is2FAEnabled = False,
      isPremium = False, stripeCustomerId = None, stripeSubscriptionId = None,
      lastLogin = Some now, language = ''en'',
      walletAddress = Some address, authType = ''web3'',
      password = hashPassword E rnd_salt (toString_hex rnd_pw),
      twoFactorSecret = None\<rparr>"

text \<open>
  Two strings differ only in letter case when they have the same length and, position by
  position, the characters are equal or one is the lower-case form of the other.
\<close>

definition case_variant :: "char \<Rightarrow> char \<Rightarrow> bool" where
  "case_variant a b = (a = b \<or> lower_char a = b \<or> a = lower_char b)"

definition differs_only_in_case :: "string \<Rightarrow> string \<Rightarrow> bool" where
  "differs_only_in_case s t = list_all2 case_variant s t"

text \<open>
  Stores that requests reach from \<open>example_store\<close>, each by one \<^verbatim>\<open>PATCH /api/user\<close> of
  the second account in its own session: with the body \<^verbatim>\<open>{ id: 1 }\<close>, with
  \<^verbatim>\<open>{ id: 99 }\<close>, with \<^verbatim>\<open>{ password: "hunter2" }\<close> and with
  \<^verbatim>\<open>{ twoFactorSecret: "" }\<close>.
\<close>

definition crossed_store :: MemStorage where
  "crossed_store = \<lparr>userStorage = [(1, alice), (2, bob\<lparr>user_id := 1\<rparr>)], currentUserId = 3\<rparr>"

definition stale_id_store :: MemStorage where
  "stale_id_store = \<lparr>userStorage = [(1, alice), (2, bob\<lparr>user_id := 99\<rparr>)], currentUserId = 3\<rparr>"

definition broken_hash_store :: MemStorage where
  "broken_hash_store =
     \<lparr>userStorage = [(1, alice), (2, bob\<lparr>password := ''hunter2''\<rparr>)], currentUserId = 3\<rparr>"

definition empty_secret_store :: MemStorage where
  "empty_secret_store =
     \<lparr>userStorage = [(1, alice), (2, bob\<lparr>twoFactorSecret := Some []\<rparr>)], currentUserId = 3\<rparr>"

text \<open>
  A stand-in one-time code that exists for every secret: the first six characters of the
  secret followed by zeros.
\<close>

definition padded_totp_env :: env where
  "padded_totp_env =
     example_env\<lparr>totp_verify := (\<lambda>secret token now. token = take 6 (secret @ ''000000''))\<rparr>"

section \<open>Facts about the encoding\<close>

lemma below_16:
  "n < 16 \<Longrightarrow> n \<in> {0,1,2,3,4,5,6,7,8,9,10,11,12,13,14,15::nat}"
  by (simp; arith)

lemma hex_val_hex_digit: "n < 16 \<Longrightarrow> hex_val (hex_digit n) = Some n"
  by (drule below_16) (auto simp: hex_val_def hex_digit_def)

lemma hex_digit_not_dot: "hex_digit n \<noteq> CHR ''.''"
proof -
  have "n mod 16 < 16" by simp
  then have "n mod 16 \<in> {0,1,2,3,4,5,6,7,8,9,10,11,12,13,14,15}" by (rule below_16)
  then show ?thesis
    unfolding hex_digit_def by (auto simp: nth_Cons')
qed

lemma dot_notin_toString_hex: "CHR ''.'' \<notin> set (toString_hex bs)"
  using hex_digit_not_dot [symmetric] by (auto simp: toString_hex_def hex_byte_def)

lemma byte_nibbles: "word_of_nat (16 * (unat b div 16) + unat b mod 16) = (b :: byte)"
  by simp

lemma Buffer_from_hex_toString_hex: "Buffer_from_hex (toString_hex bs) = bs"
proof (induction bs)
  case Nil
  then show ?case by (simp add: toString_hex_def)
next
  case (Cons b bs)
  have hi: "unat b div 16 < 16"
    using unsigned_less [of b, where 'a = nat] by (simp add: less_mult_imp_div_less)
  have "Buffer_from_hex (toString_hex (b # bs))
        = word_of_nat (16 * (unat b div 16) + unat b mod 16) # Buffer_from_hex (toString_hex bs)"
    using hi by (simp add: toString_hex_def hex_byte_def hex_val_hex_digit)
  with Cons show ?case by (simp only: byte_nibbles)
qed


lemma split_on_no_sep: "c \<notin> set s \<Longrightarrow> split_on c s = [s]"
  by (induction s) auto

lemma split_on_first:
  "c \<notin> set h \<Longrightarrow> split_on c (h @ c # t) = h # split_on c t"
  by (induction h) auto

section \<open>Round trip of hashing and verification\<close>

text \<open>
  Claim C7.  For every password \<open>P\<close>, whatever bytes \<^verbatim>\<open>randomBytes\<close> delivers and
  whatever function \<^verbatim>\<open>scrypt\<close> computes, \<^verbatim>\<open>comparePasswords(P, hashPassword(P))\<close>
  returns \<^verbatim>\<open>true\<close>: the stored record is the hexadecimal 64-byte-request digest, a dot
  and the salt, and verification re-derives the digest with the stored salt and compares
  it with the decoded stored digest.
\<close>

theorem comparePasswords_hashPassword:
  "comparePasswords E P (hashPassword E rnd P) = Inr True
   \<and> hashPassword E rnd P
       = toString_hex (scrypt E P (toString_hex rnd) 64) @ ''.'' @ toString_hex rnd"
proof -
  let ?salt = "toString_hex rnd"
  let ?buf = "scrypt E P ?salt 64"
  have rec: "hashPassword E rnd P = toString_hex ?buf @ CHR ''.'' # ?salt"
    by (simp add: hashPassword_def Let_def)
  have "split_on CHR ''.'' (toString_hex ?buf @ CHR ''.'' # ?salt) = [toString_hex ?buf, ?salt]"
    by (simp add: split_on_first split_on_no_sep dot_notin_toString_hex)
  then have "comparePasswords E P (hashPassword E rnd P) = timingSafeEqual ?buf ?buf"
    by (simp add: comparePasswords_def rec Buffer_from_hex_toString_hex)
  then show ?thesis
    by (simp add: timingSafeEqual_def rec)
qed

section \<open>Malformed stored records\<close>







section \<open>The session middleware\<close>

lemma session_ok_None: "session_ok st None"
  by (simp add: session_ok_def deserializeUser_def)

lemma session_ok_Some: "getUser st k = Some user \<Longrightarrow> session_ok st (Some k)"
  by (simp add: session_ok_def deserializeUser_def)

lemma passport_session_ok: "session_ok st sess \<Longrightarrow> passport_session st sess route = route"
  by (simp add: session_ok_def passport_session_def split: sum.splits)

lemma passport_session_stale:
  "getUser st k = None
     \<Longrightarrow> passport_session st (Some k) route = (st, Some k, Next Failed_to_deserialize_user)"
  by (simp add: passport_session_def deserializeUser_def)

lemma passport_session_unchanged:
  "passport_session st sess (st, sess, out)
     = (st, sess, if session_ok st sess then out else Next Failed_to_deserialize_user)"
  by (simp add: passport_session_def session_ok_def deserializeUser_def split: option.splits)

lemma authenticated_session:
  "getUser st k = Some user \<Longrightarrow> session_ok st (Some k) \<and> req_user st (Some k) = Some user"
  by (simp add: session_ok_Some req_user_def)

text \<open>
  A session that holds an id without a user is reached through the routes: the second
  account of \<open>example_store\<close> sends \<^verbatim>\<open>PATCH /api/user\<close> with the body \<^verbatim>\<open>{ id: 99 }\<close>
  and then logs in with its password; \<^verbatim>\<open>req.login\<close> stores the id 99 of the record,
  under which the map holds nothing.
\<close>

lemma comparePasswords_hashPassword_other:
  "comparePasswords E P (hashPassword E rnd Q)
     = timingSafeEqual (scrypt E Q (toString_hex rnd) 64) (scrypt E P (toString_hex rnd) 64)"
proof -
  let ?salt = "toString_hex rnd"
  let ?buf = "scrypt E Q ?salt 64"
  have rec: "hashPassword E rnd Q = toString_hex ?buf @ CHR ''.'' # ?salt"
    by (simp add: hashPassword_def Let_def)
  have "split_on CHR ''.'' (toString_hex ?buf @ CHR ''.'' # ?salt) = [toString_hex ?buf, ?salt]"
    by (simp add: split_on_first split_on_no_sep dot_notin_toString_hex)
  then show ?thesis
    by (simp add: comparePasswords_def rec Buffer_from_hex_toString_hex)
qed

lemmas lower_simps = toLowerCase_def lower_char_def upper_letters_def lower_letters_def

lemma patch_id_99:
  "patch_user_route example_store (Some 2) (no_updates\<lparr>p_id := Some 99\<rparr>)
     = (stale_id_store, Some 2,
        Response 200 (UserWithoutSensitiveInfo (user_public.truncate (bob\<lparr>user_id := 99\<rparr>))))"
proof -
  have g: "getUser example_store 2 = Some bob"
    by (simp add: getUser_def example_store_def)
  have id: "user_id bob = 2" by (simp add: bob_def)
  have sp: "spread bob (no_updates\<lparr>p_id := Some 99\<rparr>) = bob\<lparr>user_id := 99\<rparr>"
    by (simp add: spread_def no_updates_def overwrite_def)
  show ?thesis
    using g authenticated_session [OF g]
    by (simp add: patch_user_route_def passport_session_ok updateUser_def id sp Let_def
        example_store_def stale_id_store_def)
qed

lemma stale_getUser_99: "getUser stale_id_store 99 = None"
  by (simp add: getUser_def stale_id_store_def)

lemma stale_session_reached:
  "login_route example_env 4000 stale_id_store None ''bob'' ''hunter2''
     = (stale_id_store, Some 99,
        Response 200 (UserWithoutSensitiveInfo (user_public.truncate (bob\<lparr>user_id := 99\<rparr>))))"
proof -
  have f: "find_entry (username_matches ''bob'') stale_id_store = Some (2, bob\<lparr>user_id := 99\<rparr>)"
    by (simp add: find_entry_def stale_id_store_def username_matches_def lower_simps
        alice_def bob_def)
  have c: "comparePasswords example_env ''hunter2'' (password (bob\<lparr>user_id := 99\<rparr>)) = Inr True"
    by (simp add: bob_def comparePasswords_hashPassword_other timingSafeEqual_def)
  have n: "\<not> is2FAEnabled (bob\<lparr>user_id := 99\<rparr>)" by (simp add: bob_def)
  have v: "LocalStrategy_verify example_env 4000 stale_id_store ''bob'' ''hunter2''
             = (stale_id_store, Done_user (bob\<lparr>user_id := 99\<rparr>))"
    using n c by (simp add: LocalStrategy_verify_def f updateLastLogin_def stale_getUser_99
        seen_after_updateLastLogin_def)
  show ?thesis
    by (simp add: login_route_def passport_session_ok session_ok_None
        loginUserSchema_errors_def v)
qed

section \<open>Credential login: second-factor gate and failures\<close>

lemma alice_password_ok: "comparePasswords example_env ''secret1'' (password alice) = Inr True"
  by (simp add: alice_def comparePasswords_hashPassword_other timingSafeEqual_def)

lemma lookup_Alice: "getUserByUsername example_store ''Alice'' = Some alice"
  by (simp add: getUserByUsername_def find_entry_def example_store_def username_matches_def
      lower_simps alice_def)

lemma lookup_Alice_stale: "getUserByUsername stale_id_store ''Alice'' = Some alice"
  by (simp add: getUserByUsername_def find_entry_def stale_id_store_def username_matches_def
      lower_simps alice_def)

text \<open>
  Claim C1 as stated fails for a request that arrives with a session whose id has no
  user: the middleware ends it with the deserialization error before the route runs, so
  a login with the right password for an account with the second factor on is not
  answered with \<^verbatim>\<open>requires2FA\<close>.
\<close>

theorem login_requires_second_factor_counterexample:
  "getUserByUsername stale_id_store ''Alice'' = Some alice
   \<and> comparePasswords example_env ''secret1'' (password alice) = Inr True
   \<and> is2FAEnabled alice
   \<and> login_route example_env 5000 stale_id_store (Some 99) ''Alice'' ''secret1''
       = (stale_id_store, Some 99, Next Failed_to_deserialize_user)"
proof -
  have "is2FAEnabled alice" by (simp add: alice_def)
  moreover have "login_route example_env 5000 stale_id_store (Some 99) ''Alice'' ''secret1''
       = (stale_id_store, Some 99, Next Failed_to_deserialize_user)"
    by (simp add: login_route_def passport_session_stale stale_getUser_99)
  ultimately show ?thesis
    using lookup_Alice_stale alice_password_ok by simp
qed

text \<open>
  Claim C1, amended.  A credential login that passes the input schema (username and
  password not empty), finds the user and verifies the password, for a user whose
  \<^verbatim>\<open>is2FAEnabled\<close> flag is set, leaves the store and the session as they were:
  \<^verbatim>\<open>req.login\<close> is not called.  When the request passes the session middleware (it
  carries no session, or one whose id the store resolves), the answer is
  \<^verbatim>\<open>{ requires2FA: true, userId: user.id, ... }\<close> with status 200.
\<close>

theorem login_requires_second_factor:
  assumes "uname \<noteq> []" and "pw \<noteq> []"
    and "getUserByUsername st uname = Some user"
    and "comparePasswords E pw (password user) = Inr True"
    and "is2FAEnabled user"
  shows "fst (login_route E now st sess uname pw) = st
         \<and> fst (snd (login_route E now st sess uname pw)) = sess
         \<and> (session_ok st sess \<longrightarrow>
              snd (snd (login_route E now st sess uname pw))
                = Response 200 (Requires2FA (Some (user_id user))
                                  ''2FA verification required''))"
proof -
  from assms(3) obtain k where k: "find_entry (username_matches uname) st = Some (k, user)"
    by (auto simp: getUserByUsername_def)
  have v: "LocalStrategy_verify E now st uname pw
           = (st, Done_fail \<lparr>message = ''2FA verification required'',
                              requires2FA = True, userId = Some (user_id user)\<rparr>)"
    using k assms(4,5) by (simp add: LocalStrategy_verify_def)
  have "login_route E now st sess uname pw
          = passport_session st sess
              (st, sess,
               Response 200 (Requires2FA (Some (user_id user)) ''2FA verification required''))"
    using assms(1,2) by (simp add: login_route_def loginUserSchema_errors_def v)
  then show ?thesis
    by (simp add: passport_session_unchanged)
qed

theorem login_requires_second_factor_witness:
  "''Alice'' \<noteq> [] \<and> ''secret1'' \<noteq> []
   \<and> getUserByUsername example_store ''Alice'' = Some alice
   \<and> comparePasswords example_env ''secret1'' (password alice) = Inr True
   \<and> is2FAEnabled alice
   \<and> session_ok example_store None
   \<and> login_route example_env 5000 example_store None ''Alice'' ''secret1''
       = (example_store, None,
          Response 200 (Requires2FA (Some 1) ''2FA verification required''))"
proof -
  have h5: "is2FAEnabled alice" by (simp add: alice_def)
  have id: "user_id alice = 1" by (simp add: alice_def)
  note t = login_requires_second_factor
             [OF _ _ lookup_Alice alice_password_ok h5, where now = 5000 and sess = None]
  have "login_route example_env 5000 example_store None ''Alice'' ''secret1''
       = (example_store, None,
          Response 200 (Requires2FA (Some 1) ''2FA verification required''))"
    using t session_ok_None [of example_store] by (simp add: prod_eq_iff id)
  then show ?thesis
    using lookup_Alice alice_password_ok h5 session_ok_None [of example_store] by simp
qed

lemma patch_password:
  "patch_user_route example_store (Some 2) (no_updates\<lparr>p_password := Some ''hunter2''\<rparr>)
     = (broken_hash_store, Some 2,
        Response 200 (UserWithoutSensitiveInfo
                        (user_public.truncate (bob\<lparr>password := ''hunter2''\<rparr>))))"
proof -
  have g: "getUser example_store 2 = Some bob"
    by (simp add: getUser_def example_store_def)
  have id: "user_id bob = 2" by (simp add: bob_def)
  have sp: "spread bob (no_updates\<lparr>p_password := Some ''hunter2''\<rparr>)
              = bob\<lparr>password := ''hunter2''\<rparr>"
    by (simp add: spread_def no_updates_def overwrite_def)
  show ?thesis
    using g authenticated_session [OF g]
    by (simp add: patch_user_route_def passport_session_ok updateUser_def id sp Let_def
        example_store_def broken_hash_store_def)
qed

text \<open>
  Claim C9 as stated fails when the stored hash record of the known user is malformed
  (here after \<^verbatim>\<open>PATCH /api/user\<close> with \<^verbatim>\<open>{ password: "hunter2" }\<close>): the password
  check raises, the known-user attempt ends in the internal error, and the unknown-user
  attempt in status 401.
\<close>

theorem login_failures_indistinguishable_counterexample:
  "fst (patch_user_route example_store (Some 2) (no_updates\<lparr>p_password := Some ''hunter2''\<rparr>))
     = broken_hash_store
   \<and> getUserByUsername broken_hash_store ''carol'' = None
   \<and> getUserByUsername broken_hash_store ''bob'' = Some (bob\<lparr>password := ''hunter2''\<rparr>)
   \<and> login_route example_env 5000 broken_hash_store None ''carol'' ''guess''
       = (broken_hash_store, None, Response 401 (Message ''Incorrect username or password''))
   \<and> login_route example_env 5000 broken_hash_store None ''bob'' ''guess''
       = (broken_hash_store, None, Next ERR_INVALID_ARG_TYPE)"
proof -
  have f1: "find_entry (username_matches ''carol'') broken_hash_store = None"
    by (simp add: find_entry_def broken_hash_store_def username_matches_def lower_simps
        alice_def bob_def)
  have f2: "find_entry (username_matches ''bob'') broken_hash_store
              = Some (2, bob\<lparr>password := ''hunter2''\<rparr>)"
    by (simp add: find_entry_def broken_hash_store_def username_matches_def lower_simps
        alice_def bob_def)
  have c: "comparePasswords example_env ''guess'' (password (bob\<lparr>password := ''hunter2''\<rparr>))
             = Inl ERR_INVALID_ARG_TYPE"
    by (simp add: comparePasswords_def)
  have a: "login_route example_env 5000 broken_hash_store None ''carol'' ''guess''
       = (broken_hash_store, None, Response 401 (Message ''Incorrect username or password''))"
    by (simp add: login_route_def passport_session_ok session_ok_None
        loginUserSchema_errors_def LocalStrategy_verify_def f1)
  have b: "login_route example_env 5000 broken_hash_store None ''bob'' ''guess''
       = (broken_hash_store, None, Next ERR_INVALID_ARG_TYPE)"
    using c by (simp add: login_route_def passport_session_ok session_ok_None
        loginUserSchema_errors_def LocalStrategy_verify_def f2)
  show ?thesis
    using a b f1 f2 by (simp add: patch_password getUserByUsername_def)
qed

text \<open>
  Claim C9, amended.  Two failed credential logins against the same store and with the
  same session, both passing the input schema, one naming no stored user and one naming a
  stored user for whom the password check returns \<^verbatim>\<open>false\<close> (which it does only on a
  well-formed stored record), get the very same result.  When the request passes the
  session middleware that result is status 401 with the message \<^verbatim>\<open>Incorrect username
  or password\<close>, the store and the session untouched.
\<close>

theorem login_failures_indistinguishable:
  assumes "unameA \<noteq> []" and "pwA \<noteq> []" and "unameB \<noteq> []" and "pwB \<noteq> []"
    and "getUserByUsername st unameA = None"
    and "getUserByUsername st unameB = Some user"
    and "comparePasswords E pwB (password user) = Inr False"
  shows "login_route E now st sess unameA pwA = login_route E now st sess unameB pwB
         \<and> (session_ok st sess \<longrightarrow>
              login_route E now st sess unameB pwB
                = (st, sess, Response 401 (Message ''Incorrect username or password'')))"
proof -
  from assms(6) obtain k where k: "find_entry (username_matches unameB) st = Some (k, user)"
    by (auto simp: getUserByUsername_def)
  from assms(5) have n: "find_entry (username_matches unameA) st = None"
    by (simp add: getUserByUsername_def)
  have v1: "LocalStrategy_verify E now st unameA pwA
           = (st, Done_fail \<lparr>message = ''Incorrect username or password'',
                              requires2FA = False, userId = None\<rparr>)"
    using n by (simp add: LocalStrategy_verify_def)
  have v2: "LocalStrategy_verify E now st unameB pwB
           = (st, Done_fail \<lparr>message = ''Incorrect username or password'',
                              requires2FA = False, userId = None\<rparr>)"
    using k assms(7) by (simp add: LocalStrategy_verify_def)
  have a: "login_route E now st sess unameA pwA
          = passport_session st sess
              (st, sess, Response 401 (Message ''Incorrect username or password''))"
    using assms(1,2) by (simp add: login_route_def loginUserSchema_errors_def v1)
  have b: "login_route E now st sess unameB pwB
          = passport_session st sess
              (st, sess, Response 401 (Message ''Incorrect username or password''))"
    using assms(3,4) by (simp add: login_route_def loginUserSchema_errors_def v2)
  show ?thesis
    by (simp add: a b passport_session_unchanged)
qed

lemma alice_password_wrong: "comparePasswords example_env ''wrong'' (password alice) = Inr False"
  by (simp add: alice_def comparePasswords_hashPassword_other timingSafeEqual_def
      example_env_def example_scrypt_def example_salt_def toString_hex_def hex_byte_def hex_digit_def)

lemma lookup_carol: "getUserByUsername example_store ''carol'' = None"
  by (simp add: getUserByUsername_def find_entry_def example_store_def username_matches_def
      lower_simps alice_def bob_def)

theorem login_failures_indistinguishable_witness:
  "''carol'' \<noteq> [] \<and> ''guess'' \<noteq> [] \<and> ''Alice'' \<noteq> [] \<and> ''wrong'' \<noteq> []
   \<and> getUserByUsername example_store ''carol'' = None
   \<and> getUserByUsername example_store ''Alice'' = Some alice
   \<and> comparePasswords example_env ''wrong'' (password alice) = Inr False
   \<and> session_ok example_store None
   \<and> login_route example_env 5000 example_store None ''carol'' ''guess''
       = login_route example_env 5000 example_store None ''Alice'' ''wrong''
   \<and> login_route example_env 5000 example_store None ''Alice'' ''wrong''
       = (example_store, None, Response 401 (Message ''Incorrect username or password''))"
  using login_failures_indistinguishable
          [OF _ _ _ _ lookup_carol lookup_Alice alice_password_wrong,
           where pwA = "''guess''" and now = 5000 and sess = None]
    lookup_carol lookup_Alice alice_password_wrong session_ok_None [of example_store]
  by simp

section \<open>The store invariant\<close>

lemma store_ok_new: "store_ok new_MemStorage"
  by (simp add: store_ok_def new_MemStorage_def)

lemma store_ok_key:
  assumes "store_ok st" and "getUser st k = Some user"
  shows "0 < k \<and> k < currentUserId st"
proof -
  from assms(2) have "k \<in> set (map fst (userStorage st))"
    by (auto simp: getUser_def dest!: map_of_SomeD intro: rev_image_eqI)
  with assms(1) show ?thesis
    by (auto simp: store_ok_def list_all_iff)
qed

lemma keys_update_present:
  "map_of al k = Some u \<Longrightarrow> map fst (AList.update k v al) = map fst al"
  by (auto simp: update_keys dest!: map_of_SomeD intro: rev_image_eqI)

lemma store_ok_createUser: "store_ok st \<Longrightarrow> store_ok (fst (createUser now st d))"
  by (auto simp: store_ok_def createUser_def Let_def distinct_update update_keys list_all_iff)

lemma store_ok_updateLastLogin: "store_ok st \<Longrightarrow> store_ok (updateLastLogin now st k)"
  by (auto simp: store_ok_def updateLastLogin_def getUser_def keys_update_present
      split: option.splits)

lemma store_ok_updateUser:
  "store_ok st \<Longrightarrow> updateUser st k upd = Inr (st', u') \<Longrightarrow> store_ok st'"
  by (auto simp: store_ok_def updateUser_def getUser_def keys_update_present Let_def
      split: option.splits)

text \<open>Every route hands on a store that satisfies the invariant.\<close>

lemma store_ok_passport_session:
  "store_ok st \<Longrightarrow> store_ok (fst route) \<Longrightarrow> store_ok (fst (passport_session st sess route))"
  by (simp add: passport_session_def split: sum.splits)

lemma store_ok_LocalStrategy_verify:
  "store_ok st \<Longrightarrow> store_ok (fst (LocalStrategy_verify E now st uname pw))"
  by (auto simp: LocalStrategy_verify_def store_ok_updateLastLogin
      split: option.splits sum.splits prod.splits)

lemma store_ok_login_route:
  "store_ok st \<Longrightarrow> store_ok (fst (login_route E now st sess uname pw))"
  unfolding login_route_def
  using store_ok_LocalStrategy_verify [of st E now uname pw]
  by (intro store_ok_passport_session)
     (auto simp: Let_def split: prod.splits done_call.splits)

lemma store_ok_register_route:
  "store_ok st \<Longrightarrow> store_ok (fst (register_route E rnd now st sess userData))"
  unfolding register_route_def
  using store_ok_createUser
          [of st now "userData\<lparr>ins_password := hashPassword E rnd (ins_password userData)\<rparr>"]
  by (intro store_ok_passport_session)
     (auto simp: Let_def split: option.splits prod.splits)

lemma store_ok_web3_login_route:
  "store_ok st
     \<Longrightarrow> store_ok (fst (web3_login_route E rnd_pw rnd_salt now st sess address signature msg))"
  unfolding web3_login_route_def
  using store_ok_createUser [of st now "wallet_userData E rnd_pw rnd_salt address"]
  by (intro store_ok_passport_session)
     (auto simp: Let_def store_ok_updateLastLogin split: option.splits prod.splits)

lemma store_ok_verify_2fa_route:
  "store_ok st \<Longrightarrow> store_ok (fst (verify_2fa_route E now st sess token body_userId))"
  unfolding verify_2fa_route_def
  by (intro store_ok_passport_session)
     (auto simp: Let_def store_ok_updateLastLogin split: option.splits)

lemma store_ok_patch_user_route:
  "store_ok st \<Longrightarrow> store_ok (fst (patch_user_route st sess req_body))"
  unfolding patch_user_route_def
  by (intro store_ok_passport_session)
     (auto simp: Let_def split: option.splits sum.splits prod.splits
      dest: store_ok_updateUser)

lemma store_ok_disable_2fa_route:
  "store_ok st \<Longrightarrow> store_ok (fst (disable_2fa_route st sess))"
  unfolding disable_2fa_route_def
  by (intro store_ok_passport_session)
     (auto simp: Let_def split: option.splits sum.splits prod.splits
      dest: store_ok_updateUser)

lemma store_ok_example: "store_ok example_store"
  by (simp add: store_ok_def example_store_def)

section \<open>Second-factor submission\<close>

lemma getUser_updateLastLogin:
  "getUser st k = Some user
     \<Longrightarrow> getUser (updateLastLogin now st k) = (getUser st)(k \<mapsto> user\<lparr>lastLogin := Some now\<rparr>)"
  by (simp add: updateLastLogin_def getUser_def update_conv' fun_eq_iff)

lemma patch_secret_empty:
  "patch_user_route example_store (Some 2) (no_updates\<lparr>p_twoFactorSecret := Some (Some [])\<rparr>)
     = (empty_secret_store, Some 2,
        Response 200 (UserWithoutSensitiveInfo
                        (user_public.truncate (bob\<lparr>twoFactorSecret := Some []\<rparr>))))"
proof -
  have g: "getUser example_store 2 = Some bob"
    by (simp add: getUser_def example_store_def)
  have id: "user_id bob = 2" by (simp add: bob_def)
  have sp: "spread bob (no_updates\<lparr>p_twoFactorSecret := Some (Some [])\<rparr>)
              = bob\<lparr>twoFactorSecret := Some []\<rparr>"
    by (simp add: spread_def no_updates_def overwrite_def)
  show ?thesis
    using g authenticated_session [OF g]
    by (simp add: patch_user_route_def passport_session_ok updateUser_def id sp Let_def
        example_store_def empty_secret_store_def)
qed

text \<open>
  Claim C2 as stated fails in three ways.  A request that arrives with a session whose
  id has no user is ended by the middleware and binds no session.  A user whose record
  carries another id than the key it is stored under (here 99 under key 2, after
  \<^verbatim>\<open>PATCH /api/user\<close> with \<^verbatim>\<open>{ id: 99 }\<close>) is logged in under the id of the record:
  the session then holds an id without a user and is not authenticated, and a request
  that supplies the id of the record finds no user.  And a secret that is the empty
  string is not \<^verbatim>\<open>null\<close>, but \<^verbatim>\<open>!user.twoFactorSecret\<close> rejects it before the code
  is looked at.
\<close>

theorem verify_2fa_without_login_counterexample:
  "getUser stale_id_store 1 = Some alice
   \<and> twoFactorSecret alice = Some ''JBSWY3DPEHPK3PXP''
   \<and> totp_verify example_env ''JBSWY3DPEHPK3PXP'' ''JBSWY3'' 5000
   \<and> verify_2fa_route example_env 5000 stale_id_store (Some 99) ''JBSWY3'' (Some 1)
       = (stale_id_store, Some 99, Next Failed_to_deserialize_user)
   \<and> fst (patch_user_route example_store (Some 2) (no_updates\<lparr>p_id := Some 99\<rparr>))
       = stale_id_store
   \<and> getUser stale_id_store 2 = Some (bob\<lparr>user_id := 99\<rparr>)
   \<and> twoFactorSecret (bob\<lparr>user_id := 99\<rparr>) = Some ''KRSXG5CTMVRXEZLU''
   \<and> totp_verify example_env ''KRSXG5CTMVRXEZLU'' ''KRSXG5'' 5000
   \<and> fst (snd (verify_2fa_route example_env 5000 stale_id_store None ''KRSXG5'' (Some 2)))
       = Some 99
   \<and> \<not> isAuthenticated
          (fst (verify_2fa_route example_env 5000 stale_id_store None ''KRSXG5'' (Some 2)))
          (Some 99)
   \<and> verify_2fa_route example_env 5000 stale_id_store None ''KRSXG5'' (Some 99)
       = (stale_id_store, None, Response 400 (Message ''Invalid user or 2FA not setup''))
   \<and> fst (patch_user_route example_store (Some 2)
             (no_updates\<lparr>p_twoFactorSecret := Some (Some [])\<rparr>))
       = empty_secret_store
   \<and> getUser empty_secret_store 2 = Some (bob\<lparr>twoFactorSecret := Some []\<rparr>)
   \<and> totp_verify padded_totp_env [] ''000000'' 5000
   \<and> verify_2fa_route padded_totp_env 5000 empty_secret_store None ''000000'' (Some 2)
       = (empty_secret_store, None, Response 400 (Message ''Invalid user or 2FA not setup''))"
proof -
  have a1: "getUser stale_id_store 1 = Some alice"
    by (simp add: getUser_def stale_id_store_def)
  have a2: "twoFactorSecret alice = Some ''JBSWY3DPEHPK3PXP''" by (simp add: alice_def)
  have a3: "totp_verify example_env ''JBSWY3DPEHPK3PXP'' ''JBSWY3'' 5000"
    by (simp add: example_env_def)
  have a4: "verify_2fa_route example_env 5000 stale_id_store (Some 99) ''JBSWY3'' (Some 1)
       = (stale_id_store, Some 99, Next Failed_to_deserialize_user)"
    by (simp add: verify_2fa_route_def passport_session_stale stale_getUser_99)
  have b1: "getUser stale_id_store 2 = Some (bob\<lparr>user_id := 99\<rparr>)"
    by (simp add: getUser_def stale_id_store_def)
  have b2: "twoFactorSecret (bob\<lparr>user_id := 99\<rparr>) = Some ''KRSXG5CTMVRXEZLU''"
    by (simp add: bob_def)
  have b3: "totp_verify example_env ''KRSXG5CTMVRXEZLU'' ''KRSXG5'' 5000"
    by (simp add: example_env_def)
  have b4: "verify_2fa_route example_env 5000 stale_id_store None ''KRSXG5'' (Some 2)
       = (stale_id_store, Some 99,
          Response 200 (UserWithoutSensitiveInfo
                          (user_public.truncate (bob\<lparr>user_id := 99\<rparr>))))"
    using b1 b2 b3
    by (simp add: verify_2fa_route_def passport_session_ok session_ok_None
        verify2FASchema_errors_def or_null_def updateLastLogin_def stale_getUser_99
        seen_after_updateLastLogin_def Let_def)
  have b5: "\<not> isAuthenticated stale_id_store (Some 99)"
    by (simp add: isAuthenticated_def req_user_def stale_getUser_99)
  have b6: "verify_2fa_route example_env 5000 stale_id_store None ''KRSXG5'' (Some 99)
       = (stale_id_store, None, Response 400 (Message ''Invalid user or 2FA not setup''))"
    by (simp add: verify_2fa_route_def passport_session_ok session_ok_None
        verify2FASchema_errors_def stale_getUser_99)
  have c1: "getUser empty_secret_store 2 = Some (bob\<lparr>twoFactorSecret := Some []\<rparr>)"
    by (simp add: getUser_def empty_secret_store_def)
  have c2: "totp_verify padded_totp_env [] ''000000'' 5000"
    by (simp add: padded_totp_env_def)
  have c3: "verify_2fa_route padded_totp_env 5000 empty_secret_store None ''000000'' (Some 2)
       = (empty_secret_store, None, Response 400 (Message ''Invalid user or 2FA not setup''))"
    using c1
    by (simp add: verify_2fa_route_def passport_session_ok session_ok_None
        verify2FASchema_errors_def or_null_def)
  show ?thesis
    using a1 a2 a3 a4 b1 b2 b3 b5 b6 c1 c2 c3
    by (simp add: b4 patch_id_99 patch_secret_empty)
qed

text \<open>
  Claim C2, amended.  \<^verbatim>\<open>POST /api/verify-2fa\<close> looks at nothing but the store and the
  two body fields.  For a user stored under the id of its record, with a secret that is
  neither \<^verbatim>\<open>null\<close> nor empty, a request that passes the session middleware and carries
  that id and a six-character code that \<^verbatim>\<open>speakeasy\<close> accepts for the secret logs the
  user in: \<^verbatim>\<open>req.login\<close> binds the session to the id and \<^verbatim>\<open>req.user\<close> of the next
  request is that user.  The session the request arrives with is otherwise arbitrary
  (none at all included: no credential login need have happened) and so is the flag
  \<^verbatim>\<open>is2FAEnabled\<close> of the user.
\<close>

theorem verify_2fa_without_login:
  assumes "session_ok st sess"
    and "store_ok st"
    and "getUser st (user_id user) = Some user"
    and "twoFactorSecret user = Some secret" and "secret \<noteq> []"
    and "length token = 6" and "totp_verify E secret token now"
  shows "verify_2fa_route E now st sess token (Some (user_id user))
           = (updateLastLogin now st (user_id user), Some (user_id user),
              Response 200 (UserWithoutSensitiveInfo
                              (user_public.truncate (user\<lparr>lastLogin := Some now\<rparr>))))
         \<and> req_user (updateLastLogin now st (user_id user)) (Some (user_id user))
             = Some (user\<lparr>lastLogin := Some now\<rparr>)"
proof -
  have pos: "user_id user \<noteq> 0"
    using store_ok_key [OF assms(2,3)] by simp
  have sec: "or_null (twoFactorSecret user) = Some secret"
    using assms(4,5) by (simp add: or_null_def)
  have "verify_2fa_route E now st sess token (Some (user_id user))
           = (updateLastLogin now st (user_id user), Some (user_id user),
              Response 200 (UserWithoutSensitiveInfo
                              (user_public.truncate (user\<lparr>lastLogin := Some now\<rparr>))))"
    using pos sec assms(3,6,7)
    by (simp add: verify_2fa_route_def passport_session_ok [OF assms(1)]
        verify2FASchema_errors_def seen_after_updateLastLogin_def Let_def)
  moreover have "req_user (updateLastLogin now st (user_id user)) (Some (user_id user))
             = Some (user\<lparr>lastLogin := Some now\<rparr>)"
    using assms(3) by (simp add: req_user_def getUser_updateLastLogin)
  ultimately show ?thesis by simp
qed

lemma getUser_bob: "getUser example_store (user_id bob) = Some bob"
  by (simp add: getUser_def example_store_def bob_def)

theorem verify_2fa_without_login_witness:
  "session_ok example_store None
   \<and> store_ok example_store
   \<and> getUser example_store (user_id bob) = Some bob
   \<and> twoFactorSecret bob = Some ''KRSXG5CTMVRXEZLU'' \<and> ''KRSXG5CTMVRXEZLU'' \<noteq> []
   \<and> length ''KRSXG5'' = 6 \<and> totp_verify example_env ''KRSXG5CTMVRXEZLU'' ''KRSXG5'' 5000
   \<and> \<not> is2FAEnabled bob
   \<and> fst (snd (verify_2fa_route example_env 5000 example_store None ''KRSXG5'' (Some 2)))
       = Some 2
   \<and> req_user (updateLastLogin 5000 example_store 2) (Some 2)
       = Some (bob\<lparr>lastLogin := Some 5000\<rparr>)"
proof -
  have h3: "twoFactorSecret bob = Some ''KRSXG5CTMVRXEZLU''" by (simp add: bob_def)
  have h6: "totp_verify example_env ''KRSXG5CTMVRXEZLU'' ''KRSXG5'' 5000"
    by (simp add: example_env_def)
  have id: "user_id bob = 2" by (simp add: bob_def)
  have f: "\<not> is2FAEnabled bob" by (simp add: bob_def)
  show ?thesis
    using verify_2fa_without_login
            [OF session_ok_None store_ok_example getUser_bob h3 _ _ h6]
      session_ok_None [of example_store] store_ok_example getUser_bob h3 h6 f
    by (simp add: id)
qed

section \<open>Registration of a taken name or address\<close>

lemma lookup_ALICE_stale: "getUserByUsername stale_id_store ''ALICE'' = Some alice"
  by (simp add: getUserByUsername_def find_entry_def stale_id_store_def username_matches_def
      lower_simps alice_def)

text \<open>
  Claim C5 as stated fails for a request that arrives with a session whose id has no
  user: the registration of a taken username is then ended by the middleware with the
  deserialization error, not answered with \<^verbatim>\<open>Username already exists\<close>.
\<close>

theorem register_existing_rejected_counterexample:
  "getUserByUsername stale_id_store ''ALICE'' = Some alice
   \<and> register_route example_env example_salt 5000 stale_id_store (Some 99)
        \<lparr>ins_username = ''ALICE'', ins_password = ''pw'', ins_email = ''new@x.com'',
         ins_firstName = None, ins_lastName = None, ins_walletAddress = None,
         ins_authType = None\<rparr>
       = (stale_id_store, Some 99, Next Failed_to_deserialize_user)"
  using lookup_ALICE_stale
  by (simp add: register_route_def passport_session_stale stale_getUser_99)

text \<open>
  Claim C5, amended.  A registration whose username or whose email the store already
  finds creates no record: the store is returned as it was and the session is not
  touched.  When the request passes the session middleware it is answered with status
  400 and the message of the first failed check (\<^verbatim>\<open>Username already exists\<close>, else
  \<^verbatim>\<open>Email already in use\<close>).
\<close>

theorem register_existing_rejected:
  assumes "getUserByUsername st (ins_username userData) \<noteq> None
           \<or> getUserByEmail st (ins_email userData) \<noteq> None"
  shows "fst (register_route E rnd now st sess userData) = st
         \<and> fst (snd (register_route E rnd now st sess userData)) = sess
         \<and> (session_ok st sess \<longrightarrow>
              snd (snd (register_route E rnd now st sess userData))
                = Response 400
                    (Message (if getUserByUsername st (ins_username userData) \<noteq> None
                              then ''Username already exists''
                              else ''Email already in use'')))"
proof -
  have "register_route E rnd now st sess userData
          = passport_session st sess
              (st, sess,
               Response 400
                 (Message (if getUserByUsername st (ins_username userData) \<noteq> None
                           then ''Username already exists'' else ''Email already in use'')))"
    using assms by (auto simp: register_route_def Let_def split: option.splits)
  then show ?thesis
    by (simp add: passport_session_unchanged)
qed

lemma lookup_ALICE: "getUserByUsername example_store ''ALICE'' = Some alice"
  by (simp add: getUserByUsername_def find_entry_def example_store_def username_matches_def
      lower_simps alice_def)

lemma lookup_dave: "getUserByUsername example_store ''dave'' = None"
  by (simp add: getUserByUsername_def find_entry_def example_store_def username_matches_def
      lower_simps alice_def bob_def)

lemma lookup_BOB_mail: "getUserByEmail example_store ''BOB@x.com'' = Some bob"
  by (simp add: getUserByEmail_def find_entry_def example_store_def email_matches_def
      lower_simps alice_def bob_def)

theorem register_existing_rejected_witness:
  "getUserByUsername example_store ''ALICE'' = Some alice
   \<and> session_ok example_store None
   \<and> register_route example_env example_salt 5000 example_store None
        \<lparr>ins_username = ''ALICE'', ins_password = ''pw'', ins_email = ''new@x.com'',
         ins_firstName = None, ins_lastName = None, ins_walletAddress = None,
         ins_authType = None\<rparr>
       = (example_store, None, Response 400 (Message ''Username already exists''))
   \<and> getUserByUsername example_store ''dave'' = None
   \<and> getUserByEmail example_store ''BOB@x.com'' = Some bob
   \<and> register_route example_env example_salt 5000 example_store None
        \<lparr>ins_username = ''dave'', ins_password = ''pw'', ins_email = ''BOB@x.com'',
         ins_firstName = None, ins_lastName = None, ins_walletAddress = None,
         ins_authType = None\<rparr>
       = (example_store, None, Response 400 (Message ''Email already in use''))"
  using register_existing_rejected
          [of example_store
              "\<lparr>ins_username = ''ALICE'', ins_password = ''pw'', ins_email = ''new@x.com'',
                ins_firstName = None, ins_lastName = None, ins_walletAddress = None,
                ins_authType = None\<rparr>"
              example_env example_salt 5000 None]
    register_existing_rejected
          [of example_store
              "\<lparr>ins_username = ''dave'', ins_password = ''pw'', ins_email = ''BOB@x.com'',
                ins_firstName = None, ins_lastName = None, ins_walletAddress = None,
                ins_authType = None\<rparr>"
              example_env example_salt 5000 None]
    lookup_ALICE lookup_dave lookup_BOB_mail session_ok_None [of example_store]
  by (simp add: prod_eq_iff)

section \<open>Switching the second factor off, and the profile update\<close>

lemma getUser_update:
  "getUser (st\<lparr>userStorage := AList.update k v (userStorage st)\<rparr>) = (getUser st)(k \<mapsto> v)"
  by (simp add: getUser_def update_conv' fun_eq_iff)

lemma spread_disable_2fa:
  "spread user disable_2fa_updates = user\<lparr>is2FAEnabled := False, twoFactorSecret := None\<rparr>"
  by (simp add: spread_def disable_2fa_updates_def no_updates_def overwrite_def)

lemma patch_id_1:
  "patch_user_route example_store (Some 2) (no_updates\<lparr>p_id := Some 1\<rparr>)
     = (crossed_store, Some 2,
        Response 200 (UserWithoutSensitiveInfo (user_public.truncate (bob\<lparr>user_id := 1\<rparr>))))"
proof -
  have g: "getUser example_store 2 = Some bob"
    by (simp add: getUser_def example_store_def)
  have id: "user_id bob = 2" by (simp add: bob_def)
  have sp: "spread bob (no_updates\<lparr>p_id := Some 1\<rparr>) = bob\<lparr>user_id := 1\<rparr>"
    by (simp add: spread_def no_updates_def overwrite_def)
  show ?thesis
    using g authenticated_session [OF g] sp
    by (simp add: patch_user_route_def passport_session_ok updateUser_def id Let_def
        example_store_def crossed_store_def)
qed

lemma crossed_getUser:
  "getUser crossed_store 1 = Some alice" "getUser crossed_store 2 = Some (bob\<lparr>user_id := 1\<rparr>)"
  by (simp_all add: getUser_def crossed_store_def)

text \<open>
  While every record is stored under its own id, \<^verbatim>\<open>POST /api/user/disable-2fa\<close> does
  what it is meant to: for a user with an authenticated session it stores, under the
  user's id, the user with \<^verbatim>\<open>is2FAEnabled = false\<close> and \<^verbatim>\<open>twoFactorSecret = null\<close> and
  every other field as before; every other key of the map keeps its value, and the keys,
  their order, the id counter and the session are unchanged.
\<close>

lemma disable_2fa_frame:
  assumes "sess = Some (user_id user)" and "getUser st (user_id user) = Some user"
  shows "disable_2fa_route st sess
           = (st\<lparr>userStorage :=
                   AList.update (user_id user)
                     (user\<lparr>is2FAEnabled := False, twoFactorSecret := None\<rparr>) (userStorage st)\<rparr>,
              sess, Response 200 (Message ''2FA disabled successfully''))
         \<and> getUser (fst (disable_2fa_route st sess))
             = (getUser st)(user_id user \<mapsto> user\<lparr>is2FAEnabled := False, twoFactorSecret := None\<rparr>)
         \<and> map fst (userStorage (fst (disable_2fa_route st sess))) = map fst (userStorage st)
         \<and> currentUserId (fst (disable_2fa_route st sess)) = currentUserId st"
proof -
  have r: "disable_2fa_route st sess
           = (st\<lparr>userStorage :=
                   AList.update (user_id user)
                     (user\<lparr>is2FAEnabled := False, twoFactorSecret := None\<rparr>) (userStorage st)\<rparr>,
              sess, Response 200 (Message ''2FA disabled successfully''))"
    using assms authenticated_session [OF assms(2)]
    by (simp add: disable_2fa_route_def passport_session_ok updateUser_def
        spread_disable_2fa Let_def)
  have k: "map fst (AList.update (user_id user)
                     (user\<lparr>is2FAEnabled := False, twoFactorSecret := None\<rparr>) (userStorage st))
           = map fst (userStorage st)"
    using assms(2) by (simp add: getUser_def keys_update_present)
  show ?thesis
    by (simp add: r getUser_update k)
qed

text \<open>
  Claim C10.  The claim does not hold of the in-memory store once a record carries
  another id than its key.  The second account sends \<^verbatim>\<open>PATCH /api/user\<close> with the body
  \<^verbatim>\<open>{ id: 1 }\<close>: \<^verbatim>\<open>{ ...user, ...updates }\<close> writes the id into its record, which stays
  under key 2.  Its session is still authenticated, and its
  \<^verbatim>\<open>POST /api/user/disable-2fa\<close> calls \<^verbatim>\<open>updateUser(req.user.id, ...)\<close> with the id 1:
  the second factor of the first account is cleared, and the caller's own flag and secret
  stay as they were.
\<close>

theorem disable_2fa_clears_other_account:
  "patch_user_route example_store (Some 2) (no_updates\<lparr>p_id := Some 1\<rparr>)
     = (crossed_store, Some 2,
        Response 200 (UserWithoutSensitiveInfo (user_public.truncate (bob\<lparr>user_id := 1\<rparr>))))
   \<and> req_user crossed_store (Some 2) = Some (bob\<lparr>user_id := 1\<rparr>)
   \<and> getUser crossed_store 1 = Some alice
   \<and> is2FAEnabled alice \<and> twoFactorSecret alice = Some ''JBSWY3DPEHPK3PXP''
   \<and> snd (disable_2fa_route crossed_store (Some 2))
       = (Some 2, Response 200 (Message ''2FA disabled successfully''))
   \<and> getUser (fst (disable_2fa_route crossed_store (Some 2))) 1
       = Some (alice\<lparr>is2FAEnabled := False, twoFactorSecret := None\<rparr>)
   \<and> getUser (fst (disable_2fa_route crossed_store (Some 2))) 2
       = Some (bob\<lparr>user_id := 1\<rparr>)
   \<and> twoFactorSecret (bob\<lparr>user_id := 1\<rparr>) = Some ''KRSXG5CTMVRXEZLU''"
proof -
  have ru: "req_user crossed_store (Some 2) = Some (bob\<lparr>user_id := 1\<rparr>)"
    by (simp add: req_user_def crossed_getUser)
  have so: "session_ok crossed_store (Some 2)"
    by (rule session_ok_Some) (rule crossed_getUser(2))
  have r: "disable_2fa_route crossed_store (Some 2)
             = (crossed_store
                  \<lparr>userStorage :=
                     AList.update 1 (alice\<lparr>is2FAEnabled := False, twoFactorSecret := None\<rparr>)
                       (userStorage crossed_store)\<rparr>,
                Some 2, Response 200 (Message ''2FA disabled successfully''))"
    using crossed_getUser(1) so ru
    by (simp add: disable_2fa_route_def passport_session_ok updateUser_def
        spread_disable_2fa Let_def)
  have a: "is2FAEnabled alice" "twoFactorSecret alice = Some ''JBSWY3DPEHPK3PXP''"
    by (simp_all add: alice_def)
  have b: "twoFactorSecret (bob\<lparr>user_id := 1\<rparr>) = Some ''KRSXG5CTMVRXEZLU''"
    by (simp add: bob_def)
  show ?thesis
    using ru crossed_getUser a b r patch_id_1
    by (simp add: getUser_update)
qed




section \<open>Wallet login: implicit registration\<close>

lemma update_absent: "k \<notin> fst ` set al \<Longrightarrow> AList.update k v al = al @ [(k, v)]"
  by (induction al) auto

lemma update_last:
  "k \<notin> fst ` set al \<Longrightarrow> AList.update k v (al @ [(k, w)]) = al @ [(k, v)]"
  by (induction al) auto

lemma find_append_None: "find P xs = None \<Longrightarrow> find P (xs @ ys) = find P ys"
  by (induction xs) (auto split: if_splits)

lemma wallet_matches_cong:
  "toLowerCase a = toLowerCase b \<Longrightarrow> wallet_matches a = wallet_matches b"
  by (auto simp: wallet_matches_def fun_eq_iff split: option.splits)

lemma createUser_wallet:
  assumes "store_ok st" and "address \<noteq> []"
  shows "createUser now st (wallet_userData E rnd_pw rnd_salt address)
           = (st\<lparr>userStorage := userStorage st
                     @ [(currentUserId st,
                         wallet_user E rnd_pw rnd_salt now (currentUserId st) address)],
                 currentUserId := currentUserId st + 1\<rparr>,
              wallet_user E rnd_pw rnd_salt now (currentUserId st) address)"
proof -
  have "currentUserId st \<notin> fst ` set (userStorage st)"
    using assms(1) by (auto simp: store_ok_def list_all_iff)
  then show ?thesis
    using assms(2)
    by (simp add: createUser_def wallet_userData_def wallet_user_def Let_def update_absent
        or_null_def or_default_def)
qed

lemma example_siwe:
  "siwe_address example_env ''0xabc123DEF4567890 wants to sign in'' = Some ''0xabc123DEF4567890''"
  "siwe_verify example_env ''0xabc123DEF4567890 wants to sign in''
         ''signed:0xabc123DEF4567890 wants to sign in'' 5000 = Some True"
  "toLowerCase ''0xabc123DEF4567890'' = toLowerCase ''0xAbC123def4567890''"
  by (simp_all add: example_env_def lower_simps)

text \<open>
  Claim C4 as stated fails for a request that arrives with a session whose id has no
  user: the wallet login with a verified message for an unknown address is ended by the
  middleware; no user is created and the session is not bound.
\<close>

theorem web3_login_implicit_registration_counterexample:
  "siwe_address example_env ''0xabc123DEF4567890 wants to sign in'' = Some ''0xabc123DEF4567890''
   \<and> siwe_verify example_env ''0xabc123DEF4567890 wants to sign in''
         ''signed:0xabc123DEF4567890 wants to sign in'' 5000 = Some True
   \<and> toLowerCase ''0xabc123DEF4567890'' = toLowerCase ''0xAbC123def4567890''
   \<and> getUserByWalletAddress stale_id_store ''0xAbC123def4567890'' = None
   \<and> web3_login_route example_env [7, 7] example_salt 5000 stale_id_store (Some 99)
        ''0xAbC123def4567890'' ''signed:0xabc123DEF4567890 wants to sign in''
        ''0xabc123DEF4567890 wants to sign in''
       = (stale_id_store, Some 99, Next Failed_to_deserialize_user)"
proof -
  have n: "getUserByWalletAddress stale_id_store ''0xAbC123def4567890'' = None"
    by (simp add: getUserByWalletAddress_def find_entry_def stale_id_store_def
        wallet_matches_def alice_def bob_def)
  show ?thesis
    using example_siwe n
    by (simp add: web3_login_route_def passport_session_stale stale_getUser_99)
qed

text \<open>
  Claim C4, amended.  A wallet login that passes the session middleware and the schema,
  whose signed message verifies and whose message address equals the claimed address up
  to letter case, for an address that the in-memory store does not find: the id
  \<open>currentUserId\<close> is new, the route appends under it a user with
  \<^verbatim>\<open>authType = "web3"\<close>, the given wallet address and the hash of a freshly drawn random
  password, and binds the session to that id.  A later valid login for the same address
  (in any letter case) that passes the session middleware finds that user: the session
  is bound to the same id, and the store keeps its keys and its id counter; only
  \<^verbatim>\<open>lastLogin\<close> of that user is written.
\<close>

theorem web3_login_implicit_registration:
  assumes "session_ok st sess"
    and "store_ok st"
    and "address \<noteq> []" and "signature \<noteq> []" and "msg \<noteq> []"
    and "siwe_address E msg = Some parsed"
    and "siwe_verify E msg signature now = Some True"
    and "toLowerCase parsed = toLowerCase address"
    and "getUserByWalletAddress st address = None"
    and "addressB \<noteq> []" and "signatureB \<noteq> []" and "msgB \<noteq> []"
    and "siwe_address E msgB = Some parsedB"
    and "siwe_verify E msgB signatureB nowB = Some True"
    and "toLowerCase parsedB = toLowerCase addressB"
    and "toLowerCase addressB = toLowerCase address"
  shows "let ident = currentUserId st;
             new_user = wallet_user E rnd_pw rnd_salt now ident address;
             st' = st\<lparr>userStorage := userStorage st @ [(ident, new_user)],
                      currentUserId := ident + 1\<rparr>
         in getUser st ident = None
            \<and> web3_login_route E rnd_pw rnd_salt now st sess address signature msg
                = (st', Some ident,
                   Response 200 (UserWithoutSensitiveInfo (user_public.truncate new_user)))
            \<and> req_user st' (Some ident) = Some new_user
            \<and> authType new_user = ''web3''
            \<and> walletAddress new_user = Some address
            \<and> password new_user = hashPassword E rnd_salt (toString_hex rnd_pw)
            \<and> (session_ok st' sessB \<longrightarrow>
                 web3_login_route E rnd_pwB rnd_saltB nowB st' sessB addressB signatureB msgB
                   = (st'\<lparr>userStorage := userStorage st
                                        @ [(ident, new_user\<lparr>lastLogin := Some nowB\<rparr>)]\<rparr>,
                      Some ident,
                      Response 200 (UserWithoutSensitiveInfo
                                      (user_public.truncate
                                         (new_user\<lparr>lastLogin := Some nowB\<rparr>)))))"
proof -
  define ident where "ident = currentUserId st"
  define new_user where "new_user = wallet_user E rnd_pw rnd_salt now ident address"
  define st' where "st' = st\<lparr>userStorage := userStorage st @ [(ident, new_user)],
                              currentUserId := ident + 1\<rparr>"
  have fresh: "ident \<notin> fst ` set (userStorage st)"
    using assms(2) by (auto simp: store_ok_def list_all_iff ident_def)
  then have none: "getUser st ident = None"
    by (simp add: getUser_def map_of_eq_None_iff)
  have nf: "find_entry (wallet_matches address) st = None"
    using assms(9) by (simp add: getUserByWalletAddress_def)
  have cu: "createUser now st (wallet_userData E rnd_pw rnd_salt address) = (st', new_user)"
    using createUser_wallet [OF assms(2,3)] by (simp add: st'_def new_user_def ident_def)
  have uid: "user_id new_user = ident" and ll: "lastLogin new_user = Some now"
    and wa: "walletAddress new_user = Some address"
    by (simp_all add: new_user_def wallet_user_def)
  have g': "getUser st' ident = Some new_user"
    using fresh by (simp add: st'_def getUser_def map_add_Some_iff map_of_eq_None_iff)
  have same: "new_user\<lparr>lastLogin := Some now\<rparr> = new_user"
    using ll by simp
  have ull: "updateLastLogin now st' ident = st'"
    using g' by (simp add: updateLastLogin_def same) (simp add: getUser_def update_triv)
  have first: "web3_login_route E rnd_pw rnd_salt now st sess address signature msg
                = (st', Some ident,
                   Response 200 (UserWithoutSensitiveInfo (user_public.truncate new_user)))"
    using assms(3-8) nf
    by (simp add: web3_login_route_def passport_session_ok [OF assms(1)]
        web3LoginSchema_errors_def Let_def cu uid ull seen_after_updateLastLogin_def same)
  have ru: "req_user st' (Some ident) = Some new_user"
    by (simp add: req_user_def g')
  have wm: "wallet_matches addressB = wallet_matches address"
    by (rule wallet_matches_cong) (rule assms(16))
  have fe: "find_entry (wallet_matches addressB) st' = Some (ident, new_user)"
    using nf by (simp add: find_entry_def st'_def wm find_append_None wallet_matches_def wa)
  have ullB: "updateLastLogin nowB st' ident
              = st'\<lparr>userStorage := userStorage st @ [(ident, new_user\<lparr>lastLogin := Some nowB\<rparr>)]\<rparr>"
    using g' fresh by (simp add: updateLastLogin_def) (simp add: st'_def update_last)
  have second: "session_ok st' sessB \<longrightarrow>
                web3_login_route E rnd_pwB rnd_saltB nowB st' sessB addressB signatureB msgB
                = (st'\<lparr>userStorage := userStorage st
                                        @ [(ident, new_user\<lparr>lastLogin := Some nowB\<rparr>)]\<rparr>,
                   Some ident,
                   Response 200 (UserWithoutSensitiveInfo
                                   (user_public.truncate (new_user\<lparr>lastLogin := Some nowB\<rparr>))))"
    using assms(10-15) fe
    by (simp add: web3_login_route_def passport_session_ok web3LoginSchema_errors_def
        Let_def uid ullB seen_after_updateLastLogin_def)
  have fields: "authType new_user = ''web3''" "walletAddress new_user = Some address"
    "password new_user = hashPassword E rnd_salt (toString_hex rnd_pw)"
    by (simp_all add: new_user_def wallet_user_def)
  show ?thesis
    unfolding Let_def
    using none first ru second fields
    unfolding st'_def new_user_def ident_def
    by blast
qed

theorem web3_login_implicit_registration_witness:
  "session_ok example_store None
   \<and> store_ok example_store
   \<and> ''0xAbC123def4567890'' \<noteq> [] \<and> ''signed:0xabc123DEF4567890 wants to sign in'' \<noteq> []
   \<and> ''0xabc123DEF4567890 wants to sign in'' \<noteq> []
   \<and> siwe_address example_env ''0xabc123DEF4567890 wants to sign in''
       = Some ''0xabc123DEF4567890''
   \<and> siwe_verify example_env ''0xabc123DEF4567890 wants to sign in''
         ''signed:0xabc123DEF4567890 wants to sign in'' 5000 = Some True
   \<and> toLowerCase ''0xabc123DEF4567890'' = toLowerCase ''0xAbC123def4567890''
   \<and> getUserByWalletAddress example_store ''0xAbC123def4567890'' = None
   \<and> ''0XABC123DEF4567890'' \<noteq> [] \<and> ''signed:0xabc123def4567890 again'' \<noteq> []
   \<and> ''0xabc123def4567890 again'' \<noteq> []
   \<and> siwe_address example_env ''0xabc123def4567890 again'' = Some ''0xabc123def4567890''
   \<and> siwe_verify example_env ''0xabc123def4567890 again''
         ''signed:0xabc123def4567890 again'' 9000 = Some True
   \<and> toLowerCase ''0xabc123def4567890'' = toLowerCase ''0XABC123DEF4567890''
   \<and> toLowerCase ''0XABC123DEF4567890'' = toLowerCase ''0xAbC123def4567890''
   \<and> getUser example_store 3 = None
   \<and> web3_login_route example_env [7, 7] example_salt 5000 example_store None
        ''0xAbC123def4567890'' ''signed:0xabc123DEF4567890 wants to sign in''
        ''0xabc123DEF4567890 wants to sign in''
       = (example_store
            \<lparr>userStorage := userStorage example_store
               @ [(3, wallet_user example_env [7, 7] example_salt 5000 3 ''0xAbC123def4567890'')],
             currentUserId := 4\<rparr>,
          Some 3,
          Response 200 (UserWithoutSensitiveInfo (user_public.truncate
            (wallet_user example_env [7, 7] example_salt 5000 3 ''0xAbC123def4567890''))))
   \<and> session_ok
        (example_store
            \<lparr>userStorage := userStorage example_store
               @ [(3, wallet_user example_env [7, 7] example_salt 5000 3 ''0xAbC123def4567890'')],
             currentUserId := 4\<rparr>) (Some 3)
   \<and> fst (snd (web3_login_route example_env [9] example_salt 9000
        (example_store
            \<lparr>userStorage := userStorage example_store
               @ [(3, wallet_user example_env [7, 7] example_salt 5000 3 ''0xAbC123def4567890'')],
             currentUserId := 4\<rparr>)
        (Some 3) ''0XABC123DEF4567890'' ''signed:0xabc123def4567890 again''
        ''0xabc123def4567890 again'')) = Some 3"
proof -
  have h8: "getUserByWalletAddress example_store ''0xAbC123def4567890'' = None"
    by (simp add: getUserByWalletAddress_def find_entry_def example_store_def
        wallet_matches_def alice_def bob_def)
  have h12: "siwe_address example_env ''0xabc123def4567890 again'' = Some ''0xabc123def4567890''"
    by (simp add: example_env_def)
  have h13: "siwe_verify example_env ''0xabc123def4567890 again''
         ''signed:0xabc123def4567890 again'' 9000 = Some True"
    by (simp add: example_env_def)
  have h14: "toLowerCase ''0xabc123def4567890'' = toLowerCase ''0XABC123DEF4567890''"
    by (simp add: lower_simps)
  have h15: "toLowerCase ''0XABC123DEF4567890'' = toLowerCase ''0xAbC123def4567890''"
    by (simp add: lower_simps)
  have c: "currentUserId example_store = 3"
    by (simp add: example_store_def)
  have so: "session_ok
        (example_store
            \<lparr>userStorage := userStorage example_store
               @ [(3, wallet_user example_env [7, 7] example_salt 5000 3 ''0xAbC123def4567890'')],
             currentUserId := 4\<rparr>) (Some 3)"
    by (simp add: session_ok_def deserializeUser_def getUser_def example_store_def)
  note t = web3_login_implicit_registration
             [OF session_ok_None store_ok_example _ _ _ example_siwe h8 _ _ _ h12 h13 h14 h15,
              where rnd_pw = "[7, 7]" and rnd_salt = example_salt
                and rnd_pwB = "[9]" and rnd_saltB = example_salt and sessB = "Some 3"]
  show ?thesis
    using t session_ok_None [of example_store] store_ok_example example_siwe h8 h12 h13 h14
      h15 so
    by (simp add: Let_def c)
qed

section \<open>Lookups and letter case\<close>

lemma lower_char_idem: "lower_char (lower_char a) = lower_char a"
  by (cases "a \<in> set upper_letters")
     (auto simp: lower_char_def upper_letters_def lower_letters_def)

lemma case_variant_lower: "case_variant a b \<Longrightarrow> lower_char a = lower_char b"
  by (auto simp: case_variant_def lower_char_idem)

lemma differs_only_in_case_toLowerCase:
  "differs_only_in_case s t \<Longrightarrow> toLowerCase s = toLowerCase t"
  unfolding differs_only_in_case_def toLowerCase_def
  by (induction rule: list_all2_induct) (auto simp: case_variant_lower)

lemma find_unique:
  "distinct (map f xs) \<Longrightarrow> x \<in> set xs \<Longrightarrow> find (\<lambda>y. f y = f x) xs = Some x"
  by (induction xs) (auto simp: image_iff)

lemma MemStorage_getUserByUsername_ignores_case:
  assumes "(k, user) \<in> set (userStorage st)"
    and "differs_only_in_case name (username user)"
    and "distinct (map (\<lambda>kv. toLowerCase (username (snd kv))) (userStorage st))"
  shows "getUserByUsername st name = Some user"
proof -
  have eq: "toLowerCase name = toLowerCase (username user)"
    using assms(2) by (rule differs_only_in_case_toLowerCase)
  have "find (\<lambda>kv. toLowerCase (username (snd kv)) = toLowerCase (username (snd (k, user))))
          (userStorage st) = Some (k, user)"
    using assms(3,1) by (rule find_unique)
  then show ?thesis
    by (simp add: getUserByUsername_def find_entry_def username_matches_def eq)
qed

lemma MemStorage_getUserByEmail_ignores_case:
  assumes "(k, user) \<in> set (userStorage st)"
    and "differs_only_in_case mail (email user)"
    and "distinct (map (\<lambda>kv. toLowerCase (email (snd kv))) (userStorage st))"
  shows "getUserByEmail st mail = Some user"
proof -
  have eq: "toLowerCase mail = toLowerCase (email user)"
    using assms(2) by (rule differs_only_in_case_toLowerCase)
  have "find (\<lambda>kv. toLowerCase (email (snd kv)) = toLowerCase (email (snd (k, user))))
          (userStorage st) = Some (k, user)"
    using assms(3,1) by (rule find_unique)
  then show ?thesis
    by (simp add: getUserByEmail_def find_entry_def email_matches_def eq)
qed

text \<open>
  Claim C6.  The in-memory lookups compare lower-cased strings, so a query that differs
  from the stored username, email or wallet address only in letter case finds the user.
  The database lookups compare with \<^verbatim>\<open>eq\<close>: on the same users and the same queries
  they find nothing.
\<close>

theorem DatabaseStorage_lookup_case_sensitive:
  "differs_only_in_case ''ALICE'' (username alice)
   \<and> getUserByUsername example_store ''ALICE'' = Some alice
   \<and> db_getUserByUsername [alice, bob] ''ALICE'' = None
   \<and> differs_only_in_case ''Bob@X.com'' (email bob)
   \<and> getUserByEmail example_store ''Bob@X.com'' = Some bob
   \<and> db_getUserByEmail [alice, bob] ''Bob@X.com'' = None
   \<and> getUserByWalletAddress
        \<lparr>userStorage = [(1, alice\<lparr>walletAddress := Some ''0xAbC1''\<rparr>)], currentUserId = 2\<rparr>
        ''0xabc1'' = Some (alice\<lparr>walletAddress := Some ''0xAbC1''\<rparr>)
   \<and> db_getUserByWalletAddress [alice\<lparr>walletAddress := Some ''0xAbC1''\<rparr>] ''0xabc1'' = None"
  by (simp add: differs_only_in_case_def case_variant_def lower_char_def upper_letters_def
      lower_letters_def toLowerCase_def alice_def bob_def example_store_def
      getUserByUsername_def getUserByEmail_def getUserByWalletAddress_def find_entry_def
      username_matches_def email_matches_def wallet_matches_def
      db_getUserByUsername_def db_getUserByEmail_def db_getUserByWalletAddress_def)


end
